theory Spec2Isabelle
  imports Complex_Main "HOL-Library.Log_Nat"
begin

section \<open>Python primitives used by the OCR weight-extraction service\<close>

text \<open>
  A Python \<open>str\<close> is modelled as a \<open>string\<close> whose characters are the code points
  U+0000 .. U+00FF. A weight is a Python float, an IEEE 754 double: it is modelled as the
  rational number it denotes, and every operation that produces one (\<open>float(s)\<close>, the
  division by 1000, \<open>round\<close>, a literal such as \<open>0.1\<close>) rounds its exact result with
  \<open>to_double\<close>, to the nearest number with a 53-bit significand, ties to the even
  significand. The exponent is not bounded: a value beyond the range of a double, where
  Python has an infinity or a subnormal number, is outside the range gate in both.
  Confidences are kept as exact rationals.
  An exception is a value \<open>Exn msg\<close>, where \<open>msg\<close> is what \<open>str(e)\<close> returns; a
  Python call that may raise returns \<open>exn + 'a\<close>, with \<open>Inl\<close> for the raise.
\<close>

datatype exn = Exn string

fun str_of_exn :: "exn \<Rightarrow> string" where
  "str_of_exn (Exn m) = m"

abbreviation bsl :: char where
  "bsl \<equiv> CHR 0x5C"

definition is_digit :: "char \<Rightarrow> bool" where
  \<comment> \<open>\<open>\d\<close> on a str pattern: the decimal digits; below U+0100 these are 0-9.\<close>
  "is_digit c = (let n = (of_char c :: nat) in 48 \<le> n \<and> n \<le> 57)"

definition is_space :: "char \<Rightarrow> bool" where
  \<comment> \<open>\<open>\s\<close> and \<open>str.isspace\<close> below U+0100.\<close>
  "is_space c = (let n = (of_char c :: nat) in
     (9 \<le> n \<and> n \<le> 13) \<or> (28 \<le> n \<and> n \<le> 32) \<or> n = 133 \<or> n = 160)"

definition is_word :: "char \<Rightarrow> bool" where
  \<comment> \<open>\<open>\w\<close> on a str pattern below U+0100: alphanumerics and the underscore.\<close>
  "is_word c = (let n = (of_char c :: nat) in
     (48 \<le> n \<and> n \<le> 57) \<or> (65 \<le> n \<and> n \<le> 90) \<or> n = 95 \<or> (97 \<le> n \<and> n \<le> 122) \<or>
     n = 170 \<or> n = 178 \<or> n = 179 \<or> n = 181 \<or> n = 185 \<or> n = 186 \<or>
     (188 \<le> n \<and> n \<le> 190) \<or> (192 \<le> n \<and> n \<le> 214) \<or> (216 \<le> n \<and> n \<le> 246) \<or>
     (248 \<le> n \<and> n \<le> 255))"

definition lower_char :: "char \<Rightarrow> char" where
  "lower_char c = (let n = (of_char c :: nat) in
     if (65 \<le> n \<and> n \<le> 90) \<or> (192 \<le> n \<and> n \<le> 222 \<and> n \<noteq> 215) then char_of (n + 32) else c)"

definition py_lower :: "string \<Rightarrow> string" where
  "py_lower s = map lower_char s"

definition py_replace_char :: "char \<Rightarrow> char \<Rightarrow> string \<Rightarrow> string" where
  \<comment> \<open>\<open>s.replace(a, b)\<close> for one-character \<open>a\<close> and \<open>b\<close>.\<close>
  "py_replace_char a b s = map (\<lambda>c. if c = a then b else c) s"

definition py_strip :: "string \<Rightarrow> string" where
  "py_strip s = rev (dropWhile is_space (rev (dropWhile is_space s)))"

fun py_in :: "string \<Rightarrow> string \<Rightarrow> bool" where
  \<comment> \<open>\<open>sub in s\<close> on strings.\<close>
  "py_in sub [] = (sub = [])"
| "py_in sub (c # cs) = (take (length sub) (c # cs) = sub \<or> py_in sub cs)"

definition digit_val :: "char \<Rightarrow> nat" where
  "digit_val c = of_char c - 48"

definition dec_nat :: "string \<Rightarrow> nat" where
  "dec_nat ds = foldl (\<lambda>acc c. 10 * acc + digit_val c) 0 ds"

definition round_half_even :: "rat \<Rightarrow> int" where
  \<comment> \<open>the nearest integer, a tie going to the even one\<close>
  "round_half_even x =
     (let f = \<lfloor>x\<rfloor>; d = x - of_int f in
      if d < 1 / 2 then f else if 1 / 2 < d then f + 1 else if even f then f else f + 1)"

definition ilog2 :: "rat \<Rightarrow> int" where
  \<comment> \<open>for \<open>x > 0\<close>, the exponent \<open>k\<close> with \<open>2^k \<le> x < 2^(k+1)\<close>\<close>
  "ilog2 x = (if 1 \<le> x then bitlen \<lfloor>x\<rfloor> - 1 else - bitlen (\<lceil>1 / x\<rceil> - 1))"

definition to_double :: "rat \<Rightarrow> rat" where
  \<comment> \<open>the double nearest to \<open>x\<close>: the significand \<open>m\<close> has 53 bits,
      \<open>2^52 \<le> m \<le> 2^53\<close>, and is \<open>\<bar>x\<bar> / 2^e\<close> rounded half to even\<close>
  "to_double x =
     (if x = 0 then 0
      else (let e = ilog2 \<bar>x\<bar> - 52;
                m = round_half_even (\<bar>x\<bar> / 2 powi e)
            in sgn x * of_int m * 2 powi e))"

definition py_round2 :: "rat \<Rightarrow> rat" where
  \<comment> \<open>\<open>round(x, 2)\<close> on a float: the exact value of \<open>x\<close> is rounded to two decimal
      places, half to even, and the decimal result is read back as a double\<close>
  "py_round2 x = to_double (of_int (round_half_even (x * 100)) / 100)"

definition py_float :: "string \<Rightarrow> exn + rat" where
  \<comment> \<open>\<open>float(s)\<close> on the numerals \<open>d+\<close>, \<open>d+.\<close> and \<open>d+.d+\<close>, the only strings the capture
      group \<open>(\d+\.?\d*)\<close> produces: the double nearest to the decimal value; any other
      string is the ValueError.\<close>
  "py_float s =
     (let ip = takeWhile is_digit s; r = dropWhile is_digit s in
      if ip = [] then Inl (Exn ''could not convert string to float'')
      else (case r of
              [] \<Rightarrow> Inr (to_double (of_nat (dec_nat ip)))
            | c # fp \<Rightarrow>
                if c = CHR ''.'' \<and> list_all is_digit fp
                then Inr (to_double (of_nat (dec_nat ip) + of_nat (dec_nat fp) / 10 ^ length fp))
                else Inl (Exn ''could not convert string to float'')))"

definition py_int :: "rat \<Rightarrow> int" where
  \<comment> \<open>\<open>int(x)\<close> on a float: truncation toward zero.\<close>
  "py_int x = (if 0 \<le> x then \<lfloor>x\<rfloor> else \<lceil>x\<rceil>)"

section \<open>The fragment of \<open>re\<close> the weight parser uses\<close>

text \<open>
  The patterns of the parser are sequences of single-character atoms (\<open>\d\<close>, \<open>\s\<close>, an
  escaped or plain literal), each with an optional greedy quantifier, one capture group and
  the assertion \<open>\b\<close>. \<open>re_compile\<close> reads a pattern string of that fragment;
  \<open>rx_match\<close> is the backtracking matcher at one start position (greedy choice first);
  \<open>re_findall\<close> scans the start positions from the left and collects the group of every
  non-overlapping match.
\<close>

datatype cls = Digit | Space | Lit char

datatype quant = One | Opt | Star | Plus

datatype tok = TOpen | TClose | TWordB | TCls cls | TQuant quant

datatype item = Atom cls quant bool | WordB

fun in_cls :: "cls \<Rightarrow> char \<Rightarrow> bool" where
  "in_cls Digit c = is_digit c"
| "in_cls Space c = is_space c"
| "in_cls (Lit l) c = (c = l)"

definition tok_esc :: "char \<Rightarrow> tok" where
  "tok_esc e = (if e = CHR ''d'' then TCls Digit else if e = CHR ''s'' then TCls Space
                else if e = CHR ''b'' then TWordB else TCls (Lit e))"

definition tok_plain :: "char \<Rightarrow> tok" where
  "tok_plain c = (if c = CHR ''('' then TOpen else if c = CHR '')'' then TClose
                  else if c = CHR ''+'' then TQuant Plus else if c = CHR ''*'' then TQuant Star
                  else if c = CHR ''?'' then TQuant Opt else TCls (Lit c))"

fun re_lex :: "string \<Rightarrow> tok list" where
  "re_lex [] = []"
| "re_lex [c] = [tok_plain c]"
| "re_lex (c # e # r) = (if c = bsl then tok_esc e # re_lex r else tok_plain c # re_lex (e # r))"

fun re_items :: "bool \<Rightarrow> tok list \<Rightarrow> item list" where
  "re_items g [] = []"
| "re_items g (TOpen # r) = re_items True r"
| "re_items g (TClose # r) = re_items False r"
| "re_items g (TWordB # r) = WordB # re_items g r"
| "re_items g (TCls c # TQuant q # r) = Atom c q g # re_items g r"
| "re_items g (TCls c # r) = Atom c One g # re_items g r"
| "re_items g (TQuant q # r) = re_items g r"

definition re_compile :: "string \<Rightarrow> item list" where
  "re_compile p = re_items False (re_lex p)"

definition word_at :: "char option \<Rightarrow> bool" where
  "word_at p = (case p of None \<Rightarrow> False | Some c \<Rightarrow> is_word c)"

definition next_char :: "string \<Rightarrow> char option" where
  "next_char s = (case s of [] \<Rightarrow> None | c # _ \<Rightarrow> Some c)"

definition consume :: "bool \<Rightarrow> char \<Rightarrow> string \<times> nat \<Rightarrow> string \<times> nat" where
  \<comment> \<open>one more character matched: counted, and captured when the atom is in the group\<close>
  "consume g x r = ((if g then x # fst r else fst r), Suc (snd r))"

fun rx_match :: "item list \<Rightarrow> char option \<Rightarrow> string \<Rightarrow> (string \<times> nat) option" where
  "rx_match [] p s = Some ([], 0)"
| "rx_match (WordB # r) p s =
     (if word_at p \<noteq> word_at (next_char s) then rx_match r p s else None)"
| "rx_match (Atom c One g # r) p [] = None"
| "rx_match (Atom c One g # r) p (x # xs) =
     (if in_cls c x then map_option (consume g x) (rx_match r (Some x) xs) else None)"
| "rx_match (Atom c Opt g # r) p [] = rx_match r p []"
| "rx_match (Atom c Opt g # r) p (x # xs) =
     (if in_cls c x
      then (case rx_match r (Some x) xs of
              Some res \<Rightarrow> Some (consume g x res)
            | None \<Rightarrow> rx_match r p (x # xs))
      else rx_match r p (x # xs))"
| "rx_match (Atom c Star g # r) p [] = rx_match r p []"
| "rx_match (Atom c Star g # r) p (x # xs) =
     (if in_cls c x
      then (case rx_match (Atom c Star g # r) (Some x) xs of
              Some res \<Rightarrow> Some (consume g x res)
            | None \<Rightarrow> rx_match r p (x # xs))
      else rx_match r p (x # xs))"
| "rx_match (Atom c Plus g # r) p [] = None"
| "rx_match (Atom c Plus g # r) p (x # xs) =
     (if in_cls c x
      then map_option (consume g x) (rx_match (Atom c Star g # r) (Some x) xs)
      else None)"

fun findall_from :: "item list \<Rightarrow> char option \<Rightarrow> string \<Rightarrow> string list" where
  "findall_from its p [] = (case rx_match its p [] of None \<Rightarrow> [] | Some (g, n) \<Rightarrow> [g])"
| "findall_from its p (c # cs) =
     (case rx_match its p (c # cs) of
        None \<Rightarrow> findall_from its (Some c) cs
      | Some (g, n) \<Rightarrow>
          g # findall_from its (Some (last (c # take (n - 1) cs))) (drop (n - 1) cs))"

definition re_findall :: "string \<Rightarrow> string \<Rightarrow> string list" where
  "re_findall pat text = findall_from (re_compile pat) None text"

section \<open>Weight parser\<close>

definition weight_patterns :: "string list" where
  "weight_patterns =
     [''('' @ bsl # ''d+'' @ bsl # ''.?'' @ bsl # ''d*)'' @ bsl # ''s*kg'',
      ''('' @ bsl # ''d+'' @ bsl # ''.?'' @ bsl # ''d*)'' @ bsl # ''s*k'',
      ''('' @ bsl # ''d+'' @ bsl # ''.?'' @ bsl # ''d*)'' @ bsl # ''s*g'',
      ''peso'' @ bsl # ''s*:?'' @ bsl # ''s*('' @ bsl # ''d+'' @ bsl # ''.?'' @ bsl # ''d*)'',
      ''weight'' @ bsl # ''s*:?'' @ bsl # ''s*('' @ bsl # ''d+'' @ bsl # ''.?'' @ bsl # ''d*)'']"

definition number_pattern :: string where
  "number_pattern = bsl # ''b('' @ bsl # ''d+'' @ bsl # ''.?'' @ bsl # ''d*)'' @ bsl # ''b''"

definition in_weight_range :: "rat \<Rightarrow> bool" where
  \<comment> \<open>\<open>0.1 <= w <= 50.0\<close>; the literal \<open>0.1\<close> is a double, \<open>50.0\<close> is exact\<close>
  "in_weight_range w = (to_double (1 / 10) \<le> w \<and> w \<le> 50)"

fun scan_patterns :: "string list \<Rightarrow> string \<Rightarrow> rat option" where
  \<comment> \<open>the loop over \<open>weight_patterns\<close>; \<open>Some\<close> is its \<open>return weight\<close>\<close>
  "scan_patterns [] text = None"
| "scan_patterns (pattern # rest) text =
     (case re_findall pattern text of
        [] \<Rightarrow> scan_patterns rest text
      | m0 # _ \<Rightarrow>
          (case py_float m0 of
             Inl e \<Rightarrow> scan_patterns rest text
           | Inr weight0 \<Rightarrow>
               (let weight = (if py_in ''g'' pattern \<and> \<not> py_in ''kg'' pattern
                              then to_double (weight0 / 1000) else weight0)
                in if in_weight_range weight then Some weight
                   else scan_patterns rest text)))"

fun scan_numbers :: "string list \<Rightarrow> rat option" where
  \<comment> \<open>the loop over the standalone numbers\<close>
  "scan_numbers [] = None"
| "scan_numbers (num_str # rest) =
     (case py_float num_str of
        Inl e \<Rightarrow> scan_numbers rest
      | Inr num \<Rightarrow> if in_weight_range num then Some num else scan_numbers rest)"

definition extract_weight_from_text :: "string \<Rightarrow> rat option" where
  "extract_weight_from_text text0 =
     (let text = py_replace_char (CHR '','') (CHR ''.'') (py_lower text0) in
      case scan_patterns weight_patterns text of
        Some w \<Rightarrow> Some w
      | None \<Rightarrow> scan_numbers (re_findall number_pattern text))"

definition validate_weight_value :: "rat \<Rightarrow> rat option" where
  "validate_weight_value weight =
     (if to_double (1 / 10) \<le> weight \<and> weight \<le> 50 then Some (py_round2 weight)
      else None)"

section \<open>External libraries: NumPy, OpenCV, PIL\<close>

text \<open>
  Bitmaps are opaque: a PIL image is its band layout (single-band or multi-band, the
  encoding family) and a pixel payload; a NumPy array is the length of its shape and a
  payload. What a library call does to the pixels, and whether it raises, is given by the
  environment \<open>cvlib\<close>; what it does to the shape is the library's documented behaviour:
  \<open>np.array\<close> gives three dimensions for a multi-band image and two otherwise, the
  colour conversions to and from grey drop and add the channel axis, every other call keeps
  the shape, and \<open>Image.fromarray\<close> gives a multi-band image for three dimensions.
  Line angles are kept in degrees (\<open>np.degrees(theta)\<close>).
\<close>

record image =
  multiband :: bool
  pixels :: nat

record ndarray =
  ndim :: nat
  px :: nat

datatype cvt = RGB2BGR | BGR2RGB | BGR2GRAY | GRAY2BGR | RGB2GRAY

record cvlib =
  np_array_px :: "image \<Rightarrow> exn + nat"
  cvt_color_px :: "cvt \<Rightarrow> nat \<Rightarrow> exn + nat"
  copy_px :: "nat \<Rightarrow> exn + nat"
  clahe_px :: "nat \<Rightarrow> exn + nat"
  mean_px :: "nat \<Rightarrow> exn + rat"
  scale_abs_px :: "rat \<Rightarrow> nat \<Rightarrow> exn + nat"
  canny_px :: "nat \<Rightarrow> exn + nat"
  hough_px :: "nat \<Rightarrow> exn + rat list option"
  rotate_px :: "rat \<Rightarrow> nat \<Rightarrow> exn + nat"
  bilateral_px :: "nat \<Rightarrow> exn + nat"
  filter2d_px :: "nat \<Rightarrow> exn + nat"
  fromarray_px :: "ndarray \<Rightarrow> exn + nat"

definition same_shape :: "(nat \<Rightarrow> exn + nat) \<Rightarrow> ndarray \<Rightarrow> exn + ndarray" where
  "same_shape f a = (case f (px a) of Inl e \<Rightarrow> Inl e | Inr p \<Rightarrow> Inr (a\<lparr>px := p\<rparr>))"

definition np_array :: "cvlib \<Rightarrow> image \<Rightarrow> exn + ndarray" where
  "np_array L img =
     (case np_array_px L img of
        Inl e \<Rightarrow> Inl e
      | Inr p \<Rightarrow> Inr \<lparr>ndim = (if multiband img then 3 else 2), px = p\<rparr>)"

definition cvt_ndim :: "cvt \<Rightarrow> nat \<Rightarrow> nat" where
  "cvt_ndim code n = (case code of BGR2GRAY \<Rightarrow> 2 | RGB2GRAY \<Rightarrow> 2 | GRAY2BGR \<Rightarrow> 3
                      | RGB2BGR \<Rightarrow> n | BGR2RGB \<Rightarrow> n)"

definition cv2_cvtColor :: "cvlib \<Rightarrow> cvt \<Rightarrow> ndarray \<Rightarrow> exn + ndarray" where
  "cv2_cvtColor L code a =
     (case cvt_color_px L code (px a) of
        Inl e \<Rightarrow> Inl e
      | Inr p \<Rightarrow> Inr \<lparr>ndim = cvt_ndim code (ndim a), px = p\<rparr>)"

definition image_fromarray :: "cvlib \<Rightarrow> ndarray \<Rightarrow> exn + image" where
  "image_fromarray L a =
     (case fromarray_px L a of
        Inl e \<Rightarrow> Inl e
      | Inr p \<Rightarrow> Inr \<lparr>multiband = (ndim a = 3), pixels = p\<rparr>)"

definition np_median :: "rat list \<Rightarrow> rat" where
  "np_median xs =
     (let s = sort xs; n = length s in
      if odd n then s ! (n div 2) else (s ! (n div 2 - 1) + s ! (n div 2)) / 2)"

section \<open>Image conditioner\<close>

text \<open>
  Each stage is its \<open>try\<close> block (\<open>_body\<close>) and the handler that returns the stage's
  input. A stage returns \<open>exn + ndarray\<close> like any other call, so that "never raises" is a
  theorem and not a matter of typing.
\<close>

definition to_gray :: "cvlib \<Rightarrow> ndarray \<Rightarrow> exn + ndarray" where
  \<comment> \<open>\<open>cvtColor(img, COLOR_BGR2GRAY) if len(img.shape) == 3 else img.copy()\<close>\<close>
  "to_gray L img =
     (if ndim img = 3 then cv2_cvtColor L BGR2GRAY img else same_shape (copy_px L) img)"

definition enhance_contrast_body :: "cvlib \<Rightarrow> ndarray \<Rightarrow> exn + ndarray" where
  "enhance_contrast_body L img =
     (case to_gray L img of
        Inl e \<Rightarrow> Inl e
      | Inr gray \<Rightarrow>
          (case same_shape (clahe_px L) gray of
             Inl e \<Rightarrow> Inl e
           | Inr enhanced \<Rightarrow>
               if ndim img = 3 then cv2_cvtColor L GRAY2BGR enhanced else Inr enhanced))"

definition enhance_contrast :: "cvlib \<Rightarrow> ndarray \<Rightarrow> exn + ndarray" where
  "enhance_contrast L img =
     (case enhance_contrast_body L img of Inl e \<Rightarrow> Inr img | Inr r \<Rightarrow> Inr r)"

definition adjust_brightness_body :: "cvlib \<Rightarrow> ndarray \<Rightarrow> exn + ndarray" where
  "adjust_brightness_body L img =
     (case to_gray L img of
        Inl e \<Rightarrow> Inl e
      | Inr gray \<Rightarrow>
          (case mean_px L (px gray) of
             Inl e \<Rightarrow> Inl e
           | Inr mean_brightness \<Rightarrow>
               (let brightness_adjustment =
                      (if mean_brightness < 50 then 50
                       else if 200 < mean_brightness then - 30
                       else 128 - mean_brightness)
                in if brightness_adjustment \<noteq> 0
                   then same_shape (scale_abs_px L brightness_adjustment) img
                   else Inr img)))"

definition adjust_brightness :: "cvlib \<Rightarrow> ndarray \<Rightarrow> exn + ndarray" where
  "adjust_brightness L img =
     (case adjust_brightness_body L img of Inl e \<Rightarrow> Inr img | Inr r \<Rightarrow> Inr r)"

definition rotate_image :: "cvlib \<Rightarrow> ndarray \<Rightarrow> rat \<Rightarrow> exn + ndarray" where
  "rotate_image L img angle =
     (case same_shape (rotate_px L angle) img of Inl e \<Rightarrow> Inr img | Inr r \<Rightarrow> Inr r)"

definition correct_rotation_body :: "cvlib \<Rightarrow> ndarray \<Rightarrow> exn + ndarray" where
  "correct_rotation_body L img =
     (case to_gray L img of
        Inl e \<Rightarrow> Inl e
      | Inr gray \<Rightarrow>
          (case same_shape (canny_px L) gray of
             Inl e \<Rightarrow> Inl e
           | Inr edges \<Rightarrow>
               (case hough_px L (px edges) of
                  Inl e \<Rightarrow> Inl e
                | Inr None \<Rightarrow> Inr img
                | Inr (Some lines) \<Rightarrow>
                    if 0 < length lines
                    then (let angles = filter (\<lambda>angle. - 45 \<le> angle \<and> angle \<le> 45)
                                         (map (\<lambda>theta. theta - 90) (take 10 lines))
                          in if angles \<noteq> []
                             then (let avg_angle = np_median angles
                                   in if 2 < \<bar>avg_angle\<bar>
                                      then rotate_image L img avg_angle
                                      else Inr img)
                             else Inr img)
                    else Inr img)))"

definition correct_rotation :: "cvlib \<Rightarrow> ndarray \<Rightarrow> exn + ndarray" where
  "correct_rotation L img =
     (case correct_rotation_body L img of Inl e \<Rightarrow> Inr img | Inr r \<Rightarrow> Inr r)"

definition reduce_noise_body :: "cvlib \<Rightarrow> ndarray \<Rightarrow> exn + ndarray" where
  "reduce_noise_body L img =
     (if ndim img = 3 then same_shape (bilateral_px L) img
      else same_shape (bilateral_px L) img)"

definition reduce_noise :: "cvlib \<Rightarrow> ndarray \<Rightarrow> exn + ndarray" where
  "reduce_noise L img =
     (case reduce_noise_body L img of Inl e \<Rightarrow> Inr img | Inr r \<Rightarrow> Inr r)"

definition sharpen_image_body :: "cvlib \<Rightarrow> ndarray \<Rightarrow> exn + ndarray" where
  "sharpen_image_body L img = same_shape (filter2d_px L) img"

definition sharpen_image :: "cvlib \<Rightarrow> ndarray \<Rightarrow> exn + ndarray" where
  "sharpen_image L img =
     (case sharpen_image_body L img of Inl e \<Rightarrow> Inr img | Inr r \<Rightarrow> Inr r)"

definition preprocess_body :: "cvlib \<Rightarrow> image \<Rightarrow> exn + image" where
  "preprocess_body L img =
     (case np_array L img of Inl e \<Rightarrow> Inl e | Inr a0 \<Rightarrow>
      (case (if ndim a0 = 3 then cv2_cvtColor L RGB2BGR a0 else Inr a0) of Inl e \<Rightarrow> Inl e | Inr a1 \<Rightarrow>
      (case enhance_contrast L a1 of Inl e \<Rightarrow> Inl e | Inr a2 \<Rightarrow>
      (case adjust_brightness L a2 of Inl e \<Rightarrow> Inl e | Inr a3 \<Rightarrow>
      (case correct_rotation L a3 of Inl e \<Rightarrow> Inl e | Inr a4 \<Rightarrow>
      (case reduce_noise L a4 of Inl e \<Rightarrow> Inl e | Inr a5 \<Rightarrow>
      (case sharpen_image L a5 of Inl e \<Rightarrow> Inl e | Inr a6 \<Rightarrow>
      (case (if ndim a6 = 3 then cv2_cvtColor L BGR2RGB a6 else Inr a6) of Inl e \<Rightarrow> Inl e | Inr a7 \<Rightarrow>
       image_fromarray L a7))))))))"

definition preprocess_image_for_ocr :: "cvlib \<Rightarrow> image \<Rightarrow> exn + image" where
  "preprocess_image_for_ocr L img =
     (case preprocess_body L img of Inl e \<Rightarrow> Inr img | Inr r \<Rightarrow> Inr r)"

section \<open>OCR service: environment and data\<close>

text \<open>
  The collaborators of \<open>OCRService\<close> are the fields of \<open>env\<close>: image loading, the two
  recognition engines, the database session and the clock. \<open>vision_client\<close> is \<open>None\<close> when
  the client could not be constructed. \<open>image_to_data_conf\<close> is the \<open>conf\<close> column already
  read as integers. \<open>db_add_error\<close>, \<open>db_commit_error\<close> and \<open>db_rollback_error\<close> say
  whether \<open>session.add\<close>, \<open>session.commit\<close> and \<open>session.rollback\<close> raise (outside an
  application context all three do); the logger and the clock do not raise. The clock is
  read twice in a run: \<open>clock_start\<close>, then \<open>clock_end\<close>.
  The state a run changes is \<open>world\<close>: the database session, and \<open>calls\<close>, the trace
  of the invocations of the two adapters with the image each one is given, in order.
\<close>

record extraction_result =
  extracted_text :: string
  extracted_weight :: "rat option"
  confidence_score :: rat
  ocr_engine :: string

record outcome =
  success :: bool
  out_text :: "string option"
  out_weight :: "rat option"
  out_confidence :: rat
  out_engine :: string
  processing_time_ms :: int
  error :: "string option"

record log_entry =
  log_registration_id :: string
  log_text :: string
  log_confidence :: rat
  log_time_ms :: int
  log_engine :: string

record vision_response =
  error_message :: string
  text_annotations :: "string list"

record session =
  pending :: "log_entry list"
  stored :: "log_entry list"

datatype call = PrimaryCall image | SecondaryCall image

record world =
  db :: session
  calls :: "call list"

record env =
  lib :: cvlib
  open_local :: "string \<Rightarrow> exn + image"
  http_get_image :: "string \<Rightarrow> exn + image"
  image_to_string :: "nat \<Rightarrow> exn + string"
  image_to_data_conf :: "nat \<Rightarrow> exn + int list"
  vision_client :: "(nat \<Rightarrow> exn + vision_response) option"
  png_encode :: "image \<Rightarrow> exn + nat"
  db_add_error :: "log_entry \<Rightarrow> exn option"
  db_commit_error :: "log_entry list \<Rightarrow> exn option"
  db_rollback_error :: "session \<Rightarrow> exn option"
  clock_start :: rat
  clock_end :: rat

definition empty_result :: "string \<Rightarrow> extraction_result" where
  "empty_result engine =
     \<lparr>extracted_text = [], extracted_weight = None, confidence_score = 0, ocr_engine = engine\<rparr>"

definition record_call :: "call \<Rightarrow> world \<Rightarrow> world" where
  "record_call c w = w\<lparr>calls := calls w @ [c]\<rparr>"

definition secondary_calls :: "call list \<Rightarrow> image list" where
  \<comment> \<open>the arguments of the calls of the secondary adapter, in order\<close>
  "secondary_calls cs = concat (map (\<lambda>c. case c of SecondaryCall i \<Rightarrow> [i] | PrimaryCall i \<Rightarrow> []) cs)"

definition primary_calls :: "call list \<Rightarrow> image list" where
  "primary_calls cs = concat (map (\<lambda>c. case c of PrimaryCall i \<Rightarrow> [i] | SecondaryCall i \<Rightarrow> []) cs)"

section \<open>OCR service: acquisition and the two adapters\<close>

definition download_image :: "env \<Rightarrow> string \<Rightarrow> exn + image" where
  "download_image E image_url =
     (case (if take 7 image_url = ''file://'' then open_local E (drop 7 image_url)
            else http_get_image E image_url) of
        Inl e \<Rightarrow> Inl (Exn (''Failed to load image from '' @ image_url @ '': '' @ str_of_exn e))
      | Inr img \<Rightarrow> Inr img)"

definition tesseract_body :: "env \<Rightarrow> image \<Rightarrow> exn + extraction_result" where
  "tesseract_body E img =
     (case np_array (lib E) img of Inl e \<Rightarrow> Inl e | Inr a0 \<Rightarrow>
      (case (if ndim a0 = 3 then cv2_cvtColor (lib E) RGB2GRAY a0 else Inr a0) of
         Inl e \<Rightarrow> Inl e | Inr image_np \<Rightarrow>
      (case image_to_string E (px image_np) of Inl e \<Rightarrow> Inl e | Inr text \<Rightarrow>
      (case image_to_data_conf E (px image_np) of Inl e \<Rightarrow> Inl e | Inr conf \<Rightarrow>
        (let confidences = filter (\<lambda>c. 0 < c) conf;
             avg_confidence = (if confidences \<noteq> []
                               then of_int (sum_list confidences) / of_nat (length confidences) / 100
                               else 0);
             weight = extract_weight_from_text text
         in Inr \<lparr>extracted_text = py_strip text, extracted_weight = weight,
                 confidence_score = avg_confidence, ocr_engine = ''tesseract''\<rparr>)))))"

definition extract_with_tesseract :: "env \<Rightarrow> image \<Rightarrow> exn + extraction_result" where
  "extract_with_tesseract E img =
     (case tesseract_body E img of
        Inl e \<Rightarrow> Inr (empty_result ''tesseract'')
      | Inr r \<Rightarrow> Inr r)"

definition google_vision_body ::
  "env \<Rightarrow> (nat \<Rightarrow> exn + vision_response) \<Rightarrow> image \<Rightarrow> exn + extraction_result" where
  "google_vision_body E text_detection img =
     (case png_encode E img of Inl e \<Rightarrow> Inl e | Inr img_byte_arr \<Rightarrow>
      (case text_detection img_byte_arr of Inl e \<Rightarrow> Inl e | Inr response \<Rightarrow>
        (let texts = text_annotations response in
         if error_message response \<noteq> [] then Inl (Exn (error_message response))
         else (case texts of
                 first # _ \<Rightarrow>
                   Inr \<lparr>extracted_text = py_strip first,
                        extracted_weight = extract_weight_from_text first,
                        confidence_score = 85 / 100, ocr_engine = ''google_vision''\<rparr>
               | [] \<Rightarrow> Inr (empty_result ''google_vision'')))))"

definition extract_with_google_vision :: "env \<Rightarrow> image \<Rightarrow> exn + extraction_result" where
  "extract_with_google_vision E img =
     (case vision_client E of
        None \<Rightarrow> Inr (empty_result ''google_vision'')
      | Some text_detection \<Rightarrow>
          (case google_vision_body E text_detection img of
             Inl e \<Rightarrow> Inr (empty_result ''google_vision'')
           | Inr r \<Rightarrow> Inr r))"

section \<open>OCR service: log sink and orchestrator\<close>

definition session_rollback :: "env \<Rightarrow> world \<Rightarrow> session \<Rightarrow> (exn + unit) \<times> world" where
  \<comment> \<open>\<open>db.session.rollback()\<close> on the session \<open>s\<close>: it raises and leaves the session as
      it is, or it discards what is pending\<close>
  "session_rollback E w s =
     (case db_rollback_error E s of
        Some e \<Rightarrow> (Inl e, w\<lparr>db := s\<rparr>)
      | None \<Rightarrow> (Inr (), w\<lparr>db := s\<lparr>pending := []\<rparr>\<rparr>))"

definition log_ocr_processing ::
  "env \<Rightarrow> world \<Rightarrow> string \<Rightarrow> string \<Rightarrow> rat \<Rightarrow> int \<Rightarrow> string \<Rightarrow> (exn + unit) \<times> world" where
  \<comment> \<open>the \<open>try\<close> block adds and commits; the handler logs the error and calls
      \<open>rollback\<close>, and an exception of \<open>rollback\<close> leaves the function\<close>
  "log_ocr_processing E w registration_id text conf time_ms engine =
     (let ocr_log = \<lparr>log_registration_id = registration_id, log_text = text,
                     log_confidence = conf, log_time_ms = time_ms, log_engine = engine\<rparr>
      in case db_add_error E ocr_log of
           Some e \<Rightarrow> session_rollback E w (db w)
         | None \<Rightarrow>
             (let s1 = (db w)\<lparr>pending := pending (db w) @ [ocr_log]\<rparr>
              in case db_commit_error E (pending s1) of
                   Some e \<Rightarrow> session_rollback E w s1
                 | None \<Rightarrow> (Inr (), w\<lparr>db := s1\<lparr>stored := stored s1 @ pending s1, pending := []\<rparr>\<rparr>)))"

definition log_if_registered ::
  "env \<Rightarrow> world \<Rightarrow> string option \<Rightarrow> string \<Rightarrow> rat \<Rightarrow> int \<Rightarrow> string \<Rightarrow> (exn + unit) \<times> world" where
  \<comment> \<open>\<open>if registration_id: self._log_ocr_processing(...)\<close>: \<open>None\<close> and the empty
      string are false\<close>
  "log_if_registered E w registration_id text conf time_ms engine =
     (case registration_id of
        None \<Rightarrow> (Inr (), w)
      | Some rid \<Rightarrow>
          if rid = [] then (Inr (), w)
          else log_ocr_processing E w rid text conf time_ms engine)"

definition elapsed_ms :: "env \<Rightarrow> int" where
  \<comment> \<open>\<open>int((time.time() - start_time) * 1000)\<close>\<close>
  "elapsed_ms E = py_int ((clock_end E - clock_start E) * 1000)"

definition run_engines :: "env \<Rightarrow> world \<Rightarrow> image \<Rightarrow> (exn + extraction_result) \<times> world" where
  \<comment> \<open>conditioning, the primary engine, the threshold test, the fallback and the choice\<close>
  "run_engines E w img =
     (case preprocess_image_for_ocr (lib E) img of
        Inl e \<Rightarrow> (Inl e, w)
      | Inr processed_image \<Rightarrow>
          (let w1 = record_call (PrimaryCall processed_image) w in
           case extract_with_tesseract E processed_image of
             Inl e \<Rightarrow> (Inl e, w1)
           | Inr tesseract_result \<Rightarrow>
               if 7 / 10 \<le> confidence_score tesseract_result
               then (Inr tesseract_result, w1)
               else (let w2 = record_call (SecondaryCall img) w1 in
                     case extract_with_google_vision E img of
                       Inl e \<Rightarrow> (Inl e, w2)
                     | Inr vision_result \<Rightarrow>
                         if confidence_score tesseract_result < confidence_score vision_result
                         then (Inr vision_result, w2)
                         else (Inr tesseract_result, w2))))"

definition success_outcome :: "extraction_result \<Rightarrow> int \<Rightarrow> outcome" where
  \<comment> \<open>the engine's dictionary as \<open>process_image\<close> returns it: the time attached, the weight
      validated, \<open>success\<close> set\<close>
  "success_outcome result time_ms =
     \<lparr>success = True,
      out_text = Some (extracted_text result),
      out_weight = (case extracted_weight result of
                      None \<Rightarrow> None
                    | Some x \<Rightarrow> validate_weight_value x),
      out_confidence = confidence_score result,
      out_engine = ocr_engine result,
      processing_time_ms = time_ms,
      error = None\<rparr>"

definition process_image_try ::
  "env \<Rightarrow> world \<Rightarrow> string \<Rightarrow> string option \<Rightarrow> (exn + outcome) \<times> world" where
  \<comment> \<open>the \<open>try\<close> block of \<open>process_image\<close>\<close>
  "process_image_try E w image_url registration_id =
     (case download_image E image_url of
        Inl e \<Rightarrow> (Inl e, w)
      | Inr img \<Rightarrow>
          (case run_engines E w img of
             (Inl e, w3) \<Rightarrow> (Inl e, w3)
           | (Inr result, w3) \<Rightarrow>
               (let time_ms = elapsed_ms E in
                case log_if_registered E w3 registration_id (extracted_text result)
                       (confidence_score result) time_ms (ocr_engine result) of
                  (Inl e, w4) \<Rightarrow> (Inl e, w4)
                | (Inr u, w4) \<Rightarrow> (Inr (success_outcome result time_ms), w4))))"

definition error_outcome :: "exn \<Rightarrow> int \<Rightarrow> outcome" where
  \<comment> \<open>the dictionary returned by the handler of \<open>process_image\<close>\<close>
  "error_outcome e time_ms =
     \<lparr>success = False, out_text = None, out_weight = None, out_confidence = 0,
      out_engine = ''error'', processing_time_ms = time_ms, error = Some (str_of_exn e)\<rparr>"

definition process_image ::
  "env \<Rightarrow> world \<Rightarrow> string \<Rightarrow> string option \<Rightarrow> (exn + outcome) \<times> world" where
  "process_image E w image_url registration_id =
     (case process_image_try E w image_url registration_id of
        (Inr out, w') \<Rightarrow> (Inr out, w')
      | (Inl e, w') \<Rightarrow>
          (let time_ms = elapsed_ms E in
           case log_if_registered E w' registration_id [] 0 time_ms ''error'' of
             (Inl e2, w'') \<Rightarrow> (Inl e2, w'')
           | (Inr u, w'') \<Rightarrow> (Inr (error_outcome e time_ms), w'')))"

section \<open>The candidates of the weight parser\<close>

text \<open>
  The spec's reading of the parser, to be compared with the loops above: the candidates
  are, in order, the first match of every unit or label pattern that matches (converted as
  the code converts it) and then every standalone number; the parser returns the first
  candidate that passes the range gate.
\<close>

definition pattern_candidate :: "string \<Rightarrow> string \<Rightarrow> rat list" where
  "pattern_candidate pattern text =
     (case re_findall pattern text of
        [] \<Rightarrow> []
      | m0 # _ \<Rightarrow>
          (case py_float m0 of
             Inl e \<Rightarrow> []
           | Inr v \<Rightarrow> [if py_in ''g'' pattern \<and> \<not> py_in ''kg'' pattern
                      then to_double (v / 1000) else v]))"

definition number_candidates :: "string list \<Rightarrow> rat list" where
  "number_candidates ns =
     concat (map (\<lambda>n. case py_float n of Inl e \<Rightarrow> [] | Inr v \<Rightarrow> [v]) ns)"

definition weight_candidates :: "string \<Rightarrow> rat list" where
  "weight_candidates text0 =
     (let text = py_replace_char (CHR '','') (CHR ''.'') (py_lower text0) in
      concat (map (\<lambda>p. pattern_candidate p text) weight_patterns)
      @ number_candidates (re_findall number_pattern text))"

section \<open>Concrete environments\<close>

text \<open>
  \<open>lib0\<close> is a library in which every call succeeds and contrast enhancement and
  sharpening change the pixels; in \<open>lib_failing\<close> every OpenCV call raises. In \<open>env0\<close>
  the primary engine reads "0.123 kg" with token confidences 30 and 50, the remote
  service answers "PESO: 3.2 kg", the database works, and a \<open>file://\<close> URL cannot be
  opened. \<open>env_no_context\<close> is \<open>env0\<close> used outside an application context: every call
  on the session raises. In \<open>env_rollback_once\<close> every commit fails and the rollback
  raises while exactly one entry is pending.
\<close>

definition lib0 :: cvlib where
  "lib0 = \<lparr>np_array_px = (\<lambda>i. Inr (pixels i)),
           cvt_color_px = (\<lambda>c p. Inr p),
           copy_px = (\<lambda>p. Inr p),
           clahe_px = (\<lambda>p. Inr (p + 1)),
           mean_px = (\<lambda>p. Inr 128),
           scale_abs_px = (\<lambda>b p. Inr p),
           canny_px = (\<lambda>p. Inr p),
           hough_px = (\<lambda>p. Inr None),
           rotate_px = (\<lambda>a p. Inr p),
           bilateral_px = (\<lambda>p. Inr p),
           filter2d_px = (\<lambda>p. Inr (p + 1)),
           fromarray_px = (\<lambda>a. Inr (px a))\<rparr>"

definition lib_failing :: cvlib where
  "lib_failing = \<lparr>np_array_px = (\<lambda>i. Inr (pixels i)),
           cvt_color_px = (\<lambda>c p. Inl (Exn ''cv2.error'')),
           copy_px = (\<lambda>p. Inl (Exn ''MemoryError'')),
           clahe_px = (\<lambda>p. Inl (Exn ''cv2.error'')),
           mean_px = (\<lambda>p. Inl (Exn ''cv2.error'')),
           scale_abs_px = (\<lambda>b p. Inl (Exn ''cv2.error'')),
           canny_px = (\<lambda>p. Inl (Exn ''cv2.error'')),
           hough_px = (\<lambda>p. Inl (Exn ''cv2.error'')),
           rotate_px = (\<lambda>a p. Inl (Exn ''cv2.error'')),
           bilateral_px = (\<lambda>p. Inl (Exn ''cv2.error'')),
           filter2d_px = (\<lambda>p. Inl (Exn ''cv2.error'')),
           fromarray_px = (\<lambda>a. Inr (px a))\<rparr>"

definition raw0 :: image where
  "raw0 = \<lparr>multiband = True, pixels = 0\<rparr>"

definition cond0 :: image where
  "cond0 = \<lparr>multiband = True, pixels = 2\<rparr>"

definition gray0 :: image where
  "gray0 = \<lparr>multiband = False, pixels = 7\<rparr>"

definition arr0 :: ndarray where
  "arr0 = \<lparr>ndim = 2, px = 7\<rparr>"

definition env0 :: env where
  "env0 = \<lparr>lib = lib0,
           open_local = (\<lambda>path. Inl (Exn ''No such file'')),
           http_get_image = (\<lambda>u. Inr raw0),
           image_to_string = (\<lambda>p. Inr ''0.123 kg''),
           image_to_data_conf = (\<lambda>p. Inr [30, - 1, 50]),
           vision_client =
             Some (\<lambda>b. Inr \<lparr>error_message = [], text_annotations = [''PESO: 3.2 kg'']\<rparr>),
           png_encode = (\<lambda>i. Inr (pixels i)),
           db_add_error = (\<lambda>l. None),
           db_commit_error = (\<lambda>ls. None),
           db_rollback_error = (\<lambda>s. None),
           clock_start = 10,
           clock_end = 5617 / 500\<rparr>"

definition env_hi :: env where
  \<comment> \<open>as \<open>env0\<close>, with the token confidences of the spec's clear label\<close>
  "env_hi = env0\<lparr>image_to_data_conf := (\<lambda>p. Inr [85, 90, 95, 80, 75])\<rparr>"

definition env_tie :: env where
  \<comment> \<open>no token has a confidence and the remote client is unavailable\<close>
  "env_tie = env0\<lparr>image_to_data_conf := (\<lambda>p. Inr []), vision_client := None\<rparr>"

definition no_context :: exn where
  "no_context = Exn ''Working outside of application context.''"

definition env_no_context :: env where
  "env_no_context = env0\<lparr>db_add_error := (\<lambda>l. Some no_context),
                          db_commit_error := (\<lambda>ls. Some no_context),
                          db_rollback_error := (\<lambda>s. Some no_context)\<rparr>"

definition env_rollback_once :: env where
  "env_rollback_once =
     env0\<lparr>db_commit_error := (\<lambda>ls. Some (Exn ''Database error'')),
          db_rollback_error := (\<lambda>s. if length (pending s) = 1
                                     then Some (Exn ''Rollback failed'') else None)\<rparr>"

definition world0 :: world where
  "world0 = \<lparr>db = \<lparr>pending = [], stored = []\<rparr>, calls = []\<rparr>"

definition url0 :: string where
  "url0 = ''http://example.com/image.jpg''"

definition url_missing :: string where
  "url_missing = ''file:///tmp/x.png''"

section \<open>Evaluation rules\<close>

lemma floor_rat_numeral_div:
  "\<lfloor>(numeral a :: rat) / numeral b\<rfloor> = numeral a div numeral b"
  by (metis floor_divide_of_int_eq of_int_numeral)

lemma ceiling_rat_numeral_div:
  "\<lceil>(numeral a :: rat) / numeral b\<rceil> = - (- numeral a div numeral b)"
  by (metis ceiling_divide_eq_div of_int_numeral)

lemma bitlen_numeral_step: "bitlen (numeral n) = bitlen (numeral n div 2) + 1"
  by (subst compute_bitlen) simp

lemma bitlen_one: "bitlen 1 = 1"
  by (subst compute_bitlen) simp

lemmas double_eval = to_double_def ilog2_def round_half_even_def Let_def bitlen_one
  floor_rat_numeral_div ceiling_rat_numeral_div bitlen_numeral_step power_int_minus

lemma double_tenth: "to_double (1 / 10) = 3602879701896397 / 36028797018963968"
  by (simp add: double_eval)

lemmas rx_eval = weight_patterns_def number_pattern_def re_compile_def tok_esc_def tok_plain_def
  re_findall_def is_digit_def is_space_def is_word_def consume_def word_at_def next_char_def

lemmas parse_eval = extract_weight_from_text_def py_lower_def lower_char_def py_replace_char_def
  py_float_def dec_nat_def digit_val_def in_weight_range_def

section \<open>Weight parser: the gram pattern and the label patterns\<close>

text \<open>
  C9. On the text "2500 g" the parser returns 2.5: the patterns \<open><number> kg\<close> and
  \<open><number> k\<close> do not match, \<open><number> g\<close> is the first pattern to match, with the
  number 2500; that pattern is the one the gram test selects, 2500 / 1000 passes the range
  gate, and the parser returns 5/2.
\<close>

theorem parse_2500_g_C9:
  "re_findall (weight_patterns ! 0) ''2500 g'' = [] \<and>
   re_findall (weight_patterns ! 1) ''2500 g'' = [] \<and>
   re_findall (weight_patterns ! 2) ''2500 g'' = [''2500''] \<and>
   py_in ''g'' (weight_patterns ! 2) \<and> \<not> py_in ''kg'' (weight_patterns ! 2) \<and>
   py_float ''2500'' = Inr 2500 \<and> in_weight_range (2500 / 1000) \<and>
   extract_weight_from_text ''2500 g'' = Some (5 / 2)"
  by (simp add: rx_eval parse_eval double_eval)

text \<open>
  C2. The claim: a number matched by the label pattern \<open>weight: <number>\<close> is taken in
  kilograms and never divided by 1000. The code tests \<open>'g' in pattern and 'kg' not in
  pattern\<close> on the pattern string, and the string of the \<open>weight\<close> pattern contains the
  letter g: on "weight: 2500" no earlier pattern matches, the label pattern matches 2500,
  the gram test holds for it, and the parser returns 2.5 where 2500 kg is outside the range
  gate. The \<open>peso\<close> pattern has no g and is not divided.
\<close>

theorem weight_label_divided_by_1000_C2:
  "re_findall (weight_patterns ! 0) ''weight: 2500'' = [] \<and>
   re_findall (weight_patterns ! 1) ''weight: 2500'' = [] \<and>
   re_findall (weight_patterns ! 2) ''weight: 2500'' = [] \<and>
   re_findall (weight_patterns ! 3) ''weight: 2500'' = [] \<and>
   re_findall (weight_patterns ! 4) ''weight: 2500'' = [''2500''] \<and>
   py_in ''g'' (weight_patterns ! 4) \<and> \<not> py_in ''kg'' (weight_patterns ! 4) \<and>
   \<not> py_in ''g'' (weight_patterns ! 3) \<and>
   \<not> in_weight_range 2500 \<and>
   extract_weight_from_text ''weight: 2500'' = Some (5 / 2)"
  by (simp add: rx_eval parse_eval double_eval)

section \<open>Helper lemmas: rounding to a double\<close>

lemma rhe_cases:
  obtains "z - of_int \<lfloor>z\<rfloor> < 1 / 2" "round_half_even z = \<lfloor>z\<rfloor>"
  | "1 / 2 < z - of_int \<lfloor>z\<rfloor>" "round_half_even z = \<lfloor>z\<rfloor> + 1"
  | "z - of_int \<lfloor>z\<rfloor> = 1 / 2" "even \<lfloor>z\<rfloor>" "round_half_even z = \<lfloor>z\<rfloor>"
  | "z - of_int \<lfloor>z\<rfloor> = 1 / 2" "odd \<lfloor>z\<rfloor>" "round_half_even z = \<lfloor>z\<rfloor> + 1"
  unfolding round_half_even_def Let_def
  by (cases "z - of_int \<lfloor>z\<rfloor> < 1 / 2"; cases "1 / 2 < z - of_int \<lfloor>z\<rfloor>"; cases "even \<lfloor>z\<rfloor>")
     auto

lemma rhe_nearest: "\<bar>of_int (round_half_even z) - z\<bar> \<le> 1 / 2"
proof -
  have a: "of_int \<lfloor>z\<rfloor> \<le> z" and b: "z < of_int \<lfloor>z\<rfloor> + 1"
    by linarith+
  show ?thesis
  proof (cases z rule: rhe_cases)
    case 1
    then have r: "rat_of_int (round_half_even z) = of_int \<lfloor>z\<rfloor>" by simp
    show ?thesis using r 1(1) a b by linarith
  next
    case 2
    then have r: "rat_of_int (round_half_even z) = of_int \<lfloor>z\<rfloor> + 1" by simp
    show ?thesis using r 2(1) a b by linarith
  next
    case 3
    then have r: "rat_of_int (round_half_even z) = of_int \<lfloor>z\<rfloor>" by simp
    show ?thesis using r 3(1) a b by linarith
  next
    case 4
    then have r: "rat_of_int (round_half_even z) = of_int \<lfloor>z\<rfloor> + 1" by simp
    show ?thesis using r 4(1) a b by linarith
  qed
qed

lemma rhe_tie_even:
  assumes "\<bar>of_int (round_half_even z) - z\<bar> = 1 / 2"
  shows "even (round_half_even z)"
proof -
  have a: "of_int \<lfloor>z\<rfloor> \<le> z" and b: "z < of_int \<lfloor>z\<rfloor> + 1"
    by linarith+
  show ?thesis
  proof (cases z rule: rhe_cases)
    case 1
    then have r: "rat_of_int (round_half_even z) = of_int \<lfloor>z\<rfloor>" by simp
    have False using assms r 1(1) a b by linarith
    then show ?thesis ..
  next
    case 2
    then have r: "rat_of_int (round_half_even z) = of_int \<lfloor>z\<rfloor> + 1" by simp
    have False using assms r 2(1) a b by linarith
    then show ?thesis ..
  next
    case 3
    then show ?thesis by simp
  next
    case 4
    then show ?thesis by simp
  qed
qed

lemma ilog2_lower:
  assumes "0 < x"
  shows "2 powi (ilog2 x) \<le> x"
proof (cases "1 \<le> x")
  case True
  define k where "k = nat (bitlen \<lfloor>x\<rfloor> - 1)"
  from True have n: "0 < \<lfloor>x\<rfloor>" by simp
  from bitlen_bounds[OF n] have "2 ^ k \<le> \<lfloor>x\<rfloor>" by (simp add: k_def)
  then have "rat_of_int (2 ^ k) \<le> rat_of_int \<lfloor>x\<rfloor>" by (simp only: of_int_le_iff)
  also have "\<dots> \<le> x" by (rule of_int_floor_le)
  finally have le: "(2 :: rat) ^ k \<le> x" by simp
  have "1 \<le> bitlen \<lfloor>x\<rfloor>"
    using n bitlen_eq_zero_iff[of "\<lfloor>x\<rfloor>"] bitlen_nonneg[of "\<lfloor>x\<rfloor>"] by linarith
  then have "bitlen \<lfloor>x\<rfloor> - 1 = int k" by (simp add: k_def)
  then show ?thesis using True le by (simp add: ilog2_def)
next
  case False
  define c where "c = \<lceil>1 / x\<rceil>"
  define k where "k = nat (bitlen (c - 1))"
  have x1: "x < 1" using False by simp
  have "1 < 1 / x" using assms x1 by simp
  then have "rat_of_int 1 < rat_of_int c"
    using le_of_int_ceiling[of "1 / x"] unfolding c_def by simp
  then have "1 < c" by (simp only: of_int_less_iff)
  then have c1: "0 < c - 1" by simp
  from bitlen_bounds[OF c1] have "c - 1 < 2 ^ k" by (simp add: k_def)
  then have "c \<le> 2 ^ k" by simp
  then have "rat_of_int c \<le> rat_of_int (2 ^ k)" by (simp only: of_int_le_iff)
  then have ck: "rat_of_int c \<le> 2 ^ k" by simp
  have "1 / x \<le> rat_of_int c" unfolding c_def by (rule le_of_int_ceiling)
  with ck have "1 / x \<le> 2 ^ k" by linarith
  then have "1 \<le> 2 ^ k * x" using assms by (simp add: field_simps)
  then have le: "1 / 2 ^ k \<le> x" by (simp add: field_simps)
  have "bitlen (c - 1) = int k" by (simp add: k_def bitlen_nonneg)
  then show ?thesis
    using False le by (simp add: ilog2_def c_def[symmetric] power_int_minus field_simps)
qed

lemma to_double_error:
  assumes "0 < x"
  shows "\<bar>to_double x - x\<bar> \<le> x / 2 ^ 53"
proof -
  define e where "e = ilog2 x - 52"
  define z where "z = x / 2 powi e"
  have p: "(0 :: rat) < 2 powi e" by simp
  have "2 powi (ilog2 x) \<le> x" by (rule ilog2_lower[OF assms])
  moreover have "(2 :: rat) powi (ilog2 x) = 2 powi e * 2 ^ 52"
    by (simp add: e_def power_int_diff)
  ultimately have z52: "2 ^ 52 \<le> z" using p by (simp add: z_def field_simps)
  have td: "to_double x = of_int (round_half_even z) * 2 powi e"
    using assms by (simp add: to_double_def Let_def e_def z_def)
  have zx: "z * 2 powi e = x" using p by (simp add: z_def)
  have "to_double x - z * 2 powi e = (of_int (round_half_even z) - z) * 2 powi e"
    by (simp add: td algebra_simps)
  then have d: "to_double x - x = (of_int (round_half_even z) - z) * 2 powi e"
    by (simp only: zx)
  have n: "\<bar>of_int (round_half_even z) - z\<bar> \<le> z / 2 ^ 53"
    using rhe_nearest[of z] z52 by simp
  have "\<bar>to_double x - x\<bar> = \<bar>of_int (round_half_even z) - z\<bar> * 2 powi e"
    unfolding d using p by (simp add: abs_mult)
  also have "\<dots> \<le> z / 2 ^ 53 * 2 powi e"
    using n p by (simp add: mult_right_mono)
  also have "\<dots> = x / 2 ^ 53"
    using zx by (simp add: field_simps)
  finally show ?thesis .
qed

section \<open>Helper lemmas: parser and range gate\<close>

lemma find_append_first:
  "find P (xs @ ys) = (case find P xs of Some x \<Rightarrow> Some x | None \<Rightarrow> find P ys)"
  by (induction xs) auto

lemma find_Some_holds: "find P xs = Some x \<Longrightarrow> P x"
  by (induction xs) (auto split: if_splits)

lemma find_None_iff_none: "find P xs = None \<longleftrightarrow> (\<forall>x\<in>set xs. \<not> P x)"
  by (induction xs) auto

lemma scan_patterns_find:
  "scan_patterns ps t = find in_weight_range (concat (map (\<lambda>p. pattern_candidate p t) ps))"
  by (induction ps)
     (auto simp: pattern_candidate_def Let_def find_append_first split: list.splits sum.splits)

lemma scan_numbers_find:
  "scan_numbers ns = find in_weight_range (number_candidates ns)"
  by (induction ns) (auto simp: number_candidates_def split: sum.splits)

lemma extract_weight_find:
  "extract_weight_from_text t = find in_weight_range (weight_candidates t)"
  by (simp add: extract_weight_from_text_def weight_candidates_def Let_def find_append_first
        scan_patterns_find scan_numbers_find split: option.splits)

lemma extract_weight_in_range:
  "extract_weight_from_text t = Some w \<Longrightarrow> in_weight_range w"
  by (simp add: extract_weight_find find_Some_holds)

lemma in_weight_range_bounds: "in_weight_range w \<Longrightarrow> 1 / 10 \<le> w \<and> w \<le> 50"
  by (simp add: in_weight_range_def double_tenth)

lemma rhe_lower: "of_int n \<le> x \<Longrightarrow> n \<le> round_half_even x"
proof -
  assume "of_int n \<le> x"
  then have "n \<le> \<lfloor>x\<rfloor>" by (simp add: le_floor_iff)
  then show ?thesis by (cases x rule: rhe_cases) simp_all
qed

lemma rhe_upper: "x \<le> of_int n \<Longrightarrow> round_half_even x \<le> n"
proof -
  assume a: "x \<le> of_int n"
  then have f: "\<lfloor>x\<rfloor> \<le> n" by (simp add: floor_le_iff)
  show ?thesis
  proof (cases "\<lfloor>x\<rfloor> = n")
    case True
    then have "of_int n \<le> x" using of_int_floor_le[of x] by simp
    with a have "x = of_int n" by simp
    then show ?thesis by (simp add: round_half_even_def Let_def)
  next
    case False
    with f have "\<lfloor>x\<rfloor> + 1 \<le> n" by simp
    with f show ?thesis by (cases x rule: rhe_cases) simp_all
  qed
qed

lemma py_round2_hundredth:
  "\<exists>k. py_round2 x = to_double (of_int k / 100) \<and> \<bar>of_int k - 100 * x\<bar> \<le> 1 / 2 \<and>
       (\<bar>of_int k - 100 * x\<bar> = 1 / 2 \<longrightarrow> even k)"
  using rhe_nearest[of "x * 100"] rhe_tie_even[of "x * 100"]
  by (auto simp: py_round2_def mult.commute)

lemma to_double_between:
  assumes "0 < x"
  shows "x - x / 9007199254740992 \<le> to_double x \<and>
         to_double x \<le> x + x / 9007199254740992"
proof -
  have "\<bar>to_double x - x\<bar> \<le> x / 9007199254740992"
    using to_double_error[OF assms] by simp
  then show ?thesis by linarith
qed

lemma double_of_hundredths_in_range:
  assumes "10 \<le> k" and "k \<le> 5000"
  shows "in_weight_range (to_double (of_int k / 100))"
proof -
  have lo: "to_double (1 / 10) \<le> to_double (of_int k / 100)"
  proof (cases "k = 10")
    case True
    then show ?thesis by simp
  next
    case False
    with assms(1) have "11 \<le> k" by simp
    then have "(11 :: rat) \<le> of_int k" by linarith
    then have x: "(11 :: rat) / 100 \<le> of_int k / 100" by simp
    then have pos: "(0 :: rat) < of_int k / 100" by linarith
    from to_double_between[OF pos]
    have "of_int k / 100 - of_int k / 100 / 9007199254740992 \<le> to_double (of_int k / 100)" ..
    then show ?thesis using x unfolding double_tenth by linarith
  qed
  have hi: "to_double (of_int k / 100) \<le> 50"
  proof (cases "k = 5000")
    case True
    then show ?thesis by (simp add: double_eval)
  next
    case False
    with assms(2) have "k \<le> 4999" by simp
    then have "of_int k \<le> (4999 :: rat)" by linarith
    then have x: "of_int k / 100 \<le> (4999 :: rat) / 100" by simp
    have "(10 :: rat) \<le> of_int k" using assms(1) by linarith
    then have pos: "(0 :: rat) < of_int k / 100" by simp
    from to_double_between[OF pos]
    have "to_double (of_int k / 100) \<le> of_int k / 100 + of_int k / 100 / 9007199254740992" ..
    then show ?thesis using x by linarith
  qed
  show ?thesis using lo hi by (simp add: in_weight_range_def)
qed

lemma py_round2_in_range: "in_weight_range w \<Longrightarrow> in_weight_range (py_round2 w)"
proof -
  assume "in_weight_range w"
  then have "1 / 10 \<le> w" and "w \<le> 50" using in_weight_range_bounds by blast+
  then have a: "of_int 10 \<le> w * 100" and b: "w * 100 \<le> of_int 5000" by simp_all
  have l: "10 \<le> round_half_even (w * 100)" using rhe_lower[OF a] .
  have u: "round_half_even (w * 100) \<le> 5000" using rhe_upper[OF b] .
  show ?thesis
    unfolding py_round2_def by (rule double_of_hundredths_in_range[OF l u])
qed

lemma validate_in_range: "validate_weight_value x = Some r \<Longrightarrow> in_weight_range r"
  using py_round2_in_range[of x]
  by (auto simp: validate_weight_value_def in_weight_range_def split: if_splits)

lemma validate_of_in_range:
  "in_weight_range x \<Longrightarrow> validate_weight_value x = Some (py_round2 x)"
  by (simp add: validate_weight_value_def in_weight_range_def)

section \<open>Helper lemmas: image conditioner\<close>

lemma same_shape_ndim: "same_shape f a = Inr r \<Longrightarrow> ndim r = ndim a"
  by (auto simp: same_shape_def split: sum.splits)

lemma cvtColor_ndim: "cv2_cvtColor L code a = Inr r \<Longrightarrow> ndim r = cvt_ndim code (ndim a)"
  by (auto simp: cv2_cvtColor_def split: sum.splits)

lemma enhance_contrast_body_ndim: "enhance_contrast_body L a = Inr r \<Longrightarrow> ndim r = ndim a"
  by (auto simp: enhance_contrast_body_def to_gray_def cvt_ndim_def
      dest!: same_shape_ndim cvtColor_ndim split: sum.splits if_splits)

lemma enhance_contrast_ok:
  "\<exists>r. enhance_contrast L a = Inr r \<and> ndim r = ndim a \<and>
       (\<forall>e. enhance_contrast_body L a = Inl e \<longrightarrow> r = a)"
  by (auto simp: enhance_contrast_def dest: enhance_contrast_body_ndim split: sum.splits)

lemma adjust_brightness_body_ndim: "adjust_brightness_body L a = Inr r \<Longrightarrow> ndim r = ndim a"
  by (auto simp: adjust_brightness_body_def Let_def dest!: same_shape_ndim
      split: sum.splits if_splits)

lemma adjust_brightness_ok:
  "\<exists>r. adjust_brightness L a = Inr r \<and> ndim r = ndim a \<and>
       (\<forall>e. adjust_brightness_body L a = Inl e \<longrightarrow> r = a)"
  by (auto simp: adjust_brightness_def dest: adjust_brightness_body_ndim split: sum.splits)

lemma rotate_image_ndim: "rotate_image L a angle = Inr r \<Longrightarrow> ndim r = ndim a"
  by (auto simp: rotate_image_def dest: same_shape_ndim split: sum.splits)

lemma correct_rotation_body_ndim: "correct_rotation_body L a = Inr r \<Longrightarrow> ndim r = ndim a"
  by (auto simp: correct_rotation_body_def Let_def dest: rotate_image_ndim
      split: sum.splits option.splits if_splits)

lemma correct_rotation_ok:
  "\<exists>r. correct_rotation L a = Inr r \<and> ndim r = ndim a \<and>
       (\<forall>e. correct_rotation_body L a = Inl e \<longrightarrow> r = a)"
  by (auto simp: correct_rotation_def dest: correct_rotation_body_ndim split: sum.splits)

lemma reduce_noise_ok:
  "\<exists>r. reduce_noise L a = Inr r \<and> ndim r = ndim a \<and>
       (\<forall>e. reduce_noise_body L a = Inl e \<longrightarrow> r = a)"
  by (auto simp: reduce_noise_def reduce_noise_body_def dest: same_shape_ndim split: sum.splits)

lemma sharpen_image_ok:
  "\<exists>r. sharpen_image L a = Inr r \<and> ndim r = ndim a \<and>
       (\<forall>e. sharpen_image_body L a = Inl e \<longrightarrow> r = a)"
  by (auto simp: sharpen_image_def sharpen_image_body_def dest: same_shape_ndim
      split: sum.splits)

lemma stages_ndim:
  "enhance_contrast L a = Inr r \<Longrightarrow> ndim r = ndim a"
  "adjust_brightness L a = Inr r \<Longrightarrow> ndim r = ndim a"
  "correct_rotation L a = Inr r \<Longrightarrow> ndim r = ndim a"
  "reduce_noise L a = Inr r \<Longrightarrow> ndim r = ndim a"
  "sharpen_image L a = Inr r \<Longrightarrow> ndim r = ndim a"
  using enhance_contrast_ok[of L a] adjust_brightness_ok[of L a] correct_rotation_ok[of L a]
    reduce_noise_ok[of L a] sharpen_image_ok[of L a]
  by auto

lemma np_array_ndim: "np_array L img = Inr a \<Longrightarrow> ndim a = (if multiband img then 3 else 2)"
  by (auto simp: np_array_def split: sum.splits)

lemma fromarray_multiband: "image_fromarray L a = Inr r \<Longrightarrow> multiband r = (ndim a = 3)"
  by (auto simp: image_fromarray_def split: sum.splits)

lemma preprocess_body_family:
  assumes "preprocess_body L img = Inr out"
  shows "multiband out = multiband img"
proof -
  from assms obtain a0 a1 a2 a3 a4 a5 a6 a7 where
    s0: "np_array L img = Inr a0" and
    s1: "(if ndim a0 = 3 then cv2_cvtColor L RGB2BGR a0 else Inr a0) = Inr a1" and
    s2: "enhance_contrast L a1 = Inr a2" and
    s3: "adjust_brightness L a2 = Inr a3" and
    s4: "correct_rotation L a3 = Inr a4" and
    s5: "reduce_noise L a4 = Inr a5" and
    s6: "sharpen_image L a5 = Inr a6" and
    s7: "(if ndim a6 = 3 then cv2_cvtColor L BGR2RGB a6 else Inr a6) = Inr a7" and
    s8: "image_fromarray L a7 = Inr out"
    unfolding preprocess_body_def by (simp split: sum.splits)
  have n1: "ndim a1 = ndim a0"
    using s1 by (auto simp: cvt_ndim_def dest: cvtColor_ndim split: if_splits)
  have n6: "ndim a6 = ndim a1" using s2 s3 s4 s5 s6 by (simp add: stages_ndim)
  have n7: "ndim a7 = ndim a6"
    using s7 by (auto simp: cvt_ndim_def dest: cvtColor_ndim split: if_splits)
  show ?thesis using fromarray_multiband[OF s8] np_array_ndim[OF s0] n1 n6 n7 by simp
qed

lemma preprocess_ok:
  "\<exists>out. preprocess_image_for_ocr L img = Inr out \<and> multiband out = multiband img"
  by (auto simp: preprocess_image_for_ocr_def dest: preprocess_body_family split: sum.splits)

section \<open>Helper lemmas: adapters, log sink and orchestrator\<close>

lemma tesseract_ok: "\<exists>t. extract_with_tesseract E p = Inr t"
  by (simp add: extract_with_tesseract_def split: sum.splits)

lemma tesseract_weight:
  "extract_with_tesseract E p = Inr t \<Longrightarrow>
     extracted_weight t = None \<or> (\<exists>tx. extracted_weight t = extract_weight_from_text tx)"
  by (auto simp: extract_with_tesseract_def tesseract_body_def empty_result_def Let_def
      split: sum.splits if_splits)

lemma vision_ok: "\<exists>v. extract_with_google_vision E img = Inr v"
  by (simp add: extract_with_google_vision_def split: sum.splits option.splits)

lemma vision_weight:
  "extract_with_google_vision E img = Inr v \<Longrightarrow>
     extracted_weight v = None \<or> (\<exists>tx. extracted_weight v = extract_weight_from_text tx)"
  by (auto simp: extract_with_google_vision_def google_vision_body_def empty_result_def Let_def
      split: sum.splits if_splits option.splits list.splits)

lemma rollback_calls: "calls (snd (session_rollback E w s)) = calls w"
  by (simp add: session_rollback_def split: option.splits)

lemma log_calls: "calls (snd (log_ocr_processing E w r tx c ms eng)) = calls w"
  by (simp add: log_ocr_processing_def Let_def rollback_calls split: option.splits)

lemma log_if_calls: "calls (snd (log_if_registered E w rid tx c ms eng)) = calls w"
  by (simp add: log_if_registered_def log_calls split: option.splits)

lemma log_if_unregistered:
  "log_if_registered E w None tx c ms eng = (Inr (), w)"
  by (simp add: log_if_registered_def)

lemma log_returns_when_write_succeeds:
  assumes "\<forall>l. db_add_error E l = None" and "\<forall>ls. db_commit_error E ls = None"
  shows "fst (log_if_registered E w rid tx c ms eng) = Inr ()"
  using assms
  by (simp add: log_if_registered_def log_ocr_processing_def Let_def split: option.splits)

lemma run_engines_eq:
  assumes "preprocess_image_for_ocr (lib E) img = Inr p"
    and "extract_with_tesseract E p = Inr t"
    and "extract_with_google_vision E img = Inr v"
  shows "run_engines E w img =
     (if 7 / 10 \<le> confidence_score t then (Inr t, record_call (PrimaryCall p) w)
      else (Inr (if confidence_score t < confidence_score v then v else t),
            record_call (SecondaryCall img) (record_call (PrimaryCall p) w)))"
  by (simp add: run_engines_def Let_def assms)

lemma run_engines_ok:
  "\<exists>p t v. preprocess_image_for_ocr (lib E) img = Inr p \<and> extract_with_tesseract E p = Inr t \<and>
     extract_with_google_vision E img = Inr v \<and>
     run_engines E w img =
     (if 7 / 10 \<le> confidence_score t then (Inr t, record_call (PrimaryCall p) w)
      else (Inr (if confidence_score t < confidence_score v then v else t),
            record_call (SecondaryCall img) (record_call (PrimaryCall p) w)))"
proof -
  obtain p where p: "preprocess_image_for_ocr (lib E) img = Inr p" using preprocess_ok by blast
  obtain t where t: "extract_with_tesseract E p = Inr t" using tesseract_ok by blast
  obtain v where v: "extract_with_google_vision E img = Inr v" using vision_ok by blast
  show ?thesis using run_engines_eq[OF p t v] p t v by blast
qed

lemma run_engines_result:
  "\<exists>result w3. run_engines E w img = (Inr result, w3) \<and> db w3 = db w \<and>
     (extracted_weight result = None \<or>
      (\<exists>tx. extracted_weight result = extract_weight_from_text tx))"
proof -
  obtain p t v where p: "preprocess_image_for_ocr (lib E) img = Inr p"
    and t: "extract_with_tesseract E p = Inr t"
    and v: "extract_with_google_vision E img = Inr v"
    using run_engines_ok[of E img w] by blast
  show ?thesis
    using tesseract_weight[OF t] vision_weight[OF v]
    by (auto simp: run_engines_eq[OF p t v] record_call_def)
qed

lemma process_image_try_acquired:
  assumes "download_image E url = Inr img" and "run_engines E w img = (Inr result, w3)"
  shows "process_image_try E w url rid =
     (case log_if_registered E w3 rid (extracted_text result) (confidence_score result)
             (elapsed_ms E) (ocr_engine result) of
        (Inl e, w4) \<Rightarrow> (Inl e, w4)
      | (Inr u, w4) \<Rightarrow> (Inr (success_outcome result (elapsed_ms E)), w4))"
  by (simp add: process_image_try_def assms Let_def)

lemma process_image_success:
  assumes "download_image E url = Inr img" and "run_engines E w img = (Inr result, w3)"
    and "fst (log_if_registered E w3 rid (extracted_text result) (confidence_score result)
             (elapsed_ms E) (ocr_engine result)) = Inr ()"
  shows "process_image E w url rid =
     (Inr (success_outcome result (elapsed_ms E)),
      snd (log_if_registered E w3 rid (extracted_text result) (confidence_score result)
             (elapsed_ms E) (ocr_engine result)))"
proof -
  obtain w4 where l: "log_if_registered E w3 rid (extracted_text result)
      (confidence_score result) (elapsed_ms E) (ocr_engine result) = (Inr (), w4)"
    using assms(3)
    by (cases "log_if_registered E w3 rid (extracted_text result)
      (confidence_score result) (elapsed_ms E) (ocr_engine result)") auto
  show ?thesis
    by (simp add: process_image_def process_image_try_acquired[OF assms(1) assms(2)] l)
qed

lemma process_image_calls:
  assumes "download_image E url = Inr img" and "run_engines E w img = (Inr result, w3)"
  shows "calls (snd (process_image E w url rid)) = calls w3"
proof -
  obtain r1 w4 where l1: "log_if_registered E w3 rid (extracted_text result)
      (confidence_score result) (elapsed_ms E) (ocr_engine result) = (r1, w4)"
    by (cases "log_if_registered E w3 rid (extracted_text result)
      (confidence_score result) (elapsed_ms E) (ocr_engine result)")
  have c4: "calls w4 = calls w3"
    using log_if_calls[of E w3 rid "extracted_text result" "confidence_score result"
        "elapsed_ms E" "ocr_engine result"] l1 by simp
  obtain r2 w5 where l2: "log_if_registered E w4 rid [] 0 (elapsed_ms E) ''error'' = (r2, w5)"
    by (cases "log_if_registered E w4 rid [] 0 (elapsed_ms E) ''error''")
  have c5: "calls w5 = calls w4"
    using log_if_calls[of E w4 rid "[]" 0 "elapsed_ms E" "''error''"] l2 by simp
  show ?thesis
    using c4 c5
    by (simp add: process_image_def process_image_try_acquired[OF assms] l1 l2 Let_def
        split: sum.splits)
qed

lemma process_image_outcome:
  assumes "process_image E w url rid = (Inr out, w')"
  shows "(\<exists>e. out = error_outcome e (elapsed_ms E)) \<or>
         (\<exists>img result w3. download_image E url = Inr img \<and>
            run_engines E w img = (Inr result, w3) \<and>
            out = success_outcome result (elapsed_ms E))"
proof (cases "download_image E url")
  case (Inl e)
  then have "process_image_try E w url rid = (Inl e, w)" by (simp add: process_image_try_def)
  with assms show ?thesis
    by (auto simp: process_image_def Let_def split: prod.splits sum.splits)
next
  case (Inr img)
  obtain result w3 where r: "run_engines E w img = (Inr result, w3)"
    using run_engines_result[of E w img] by blast
  from assms show ?thesis
    using Inr r
    by (auto simp: process_image_def process_image_try_acquired[OF Inr r] Let_def
        split: prod.splits sum.splits)
qed

lemma successful_outcome:
  assumes "process_image E w url rid = (Inr out, w')" and "success out"
  shows "\<exists>img result w3. download_image E url = Inr img \<and>
            run_engines E w img = (Inr result, w3) \<and>
            out = success_outcome result (elapsed_ms E)"
  using process_image_outcome[OF assms(1)] assms(2) by (auto simp: error_outcome_def)

lemma log_returns_when_rollback_returns:
  assumes "\<forall>s. db_rollback_error E s = None"
  shows "fst (log_if_registered E w rid tx c ms eng) = Inr ()"
  using assms
  by (simp add: log_if_registered_def log_ocr_processing_def session_rollback_def Let_def
      split: option.splits)

lemma succeeds_when_rollback_returns:
  assumes "download_image E url = Inr img" and "\<forall>s. db_rollback_error E s = None"
  shows "\<exists>out w'. process_image E w url rid = (Inr out, w') \<and> success out"
proof -
  obtain result w3 where r: "run_engines E w img = (Inr result, w3)"
    using run_engines_result[of E w img] by blast
  show ?thesis
    by (simp add: process_image_success[OF assms(1) r log_returns_when_rollback_returns[OF assms(2)]]
        success_outcome_def)
qed

section \<open>Evaluation of the concrete environments\<close>

lemmas cond_eval = preprocess_image_for_ocr_def preprocess_body_def np_array_def cv2_cvtColor_def
  cvt_ndim_def image_fromarray_def same_shape_def to_gray_def
  enhance_contrast_def enhance_contrast_body_def adjust_brightness_def adjust_brightness_body_def
  correct_rotation_def correct_rotation_body_def reduce_noise_def reduce_noise_body_def
  sharpen_image_def sharpen_image_body_def rotate_image_def

lemmas env_defs = env0_def env_hi_def env_tie_def env_no_context_def env_rollback_once_def

lemma lib_of_envs:
  "lib env0 = lib0" "lib env_hi = lib0" "lib env_tie = lib0" "lib env_no_context = lib0"
  "lib env_rollback_once = lib0"
  by (simp_all add: env_defs)

lemma preprocess_lib0: "preprocess_image_for_ocr lib0 raw0 = Inr cond0"
  by (simp add: cond_eval lib0_def raw0_def cond0_def)

lemma download_env0:
  "download_image env0 url0 = Inr raw0"
  "download_image env_hi url0 = Inr raw0"
  "download_image env_tie url0 = Inr raw0"
  "download_image env_no_context url0 = Inr raw0"
  "download_image env_rollback_once url0 = Inr raw0"
  by (simp_all add: download_image_def env_defs url0_def)

lemma download_missing:
  "download_image env0 url_missing =
     Inl (Exn ''Failed to load image from file:///tmp/x.png: No such file'')"
  "download_image env_no_context url_missing =
     Inl (Exn ''Failed to load image from file:///tmp/x.png: No such file'')"
  by (simp_all add: download_image_def env_defs url_missing_def)

lemma parse_label_0123: "extract_weight_from_text ''0.123 kg'' = Some (to_double (123 / 1000))"
  by (simp add: rx_eval parse_eval double_eval)

lemma parse_peso_32: "extract_weight_from_text ''PESO: 3.2 kg'' = Some (to_double (16 / 5))"
  by (simp add: rx_eval parse_eval double_eval)

lemmas tess_eval = extract_with_tesseract_def tesseract_body_def lib0_def np_array_def
  cv2_cvtColor_def cvt_ndim_def cond0_def py_strip_def is_space_def parse_label_0123

lemma tesseract_low:
  "extract_with_tesseract env0 cond0 =
     Inr \<lparr>extracted_text = ''0.123 kg'', extracted_weight = Some (to_double (123 / 1000)),
          confidence_score = 2 / 5, ocr_engine = ''tesseract''\<rparr>"
  "extract_with_tesseract env_no_context cond0 =
     Inr \<lparr>extracted_text = ''0.123 kg'', extracted_weight = Some (to_double (123 / 1000)),
          confidence_score = 2 / 5, ocr_engine = ''tesseract''\<rparr>"
  "extract_with_tesseract env_rollback_once cond0 =
     Inr \<lparr>extracted_text = ''0.123 kg'', extracted_weight = Some (to_double (123 / 1000)),
          confidence_score = 2 / 5, ocr_engine = ''tesseract''\<rparr>"
  by (simp_all add: tess_eval env_defs)

lemma tesseract_env_hi:
  "extract_with_tesseract env_hi cond0 =
     Inr \<lparr>extracted_text = ''0.123 kg'', extracted_weight = Some (to_double (123 / 1000)),
          confidence_score = 17 / 20, ocr_engine = ''tesseract''\<rparr>"
  by (simp add: tess_eval env_defs)

lemma tesseract_env_tie:
  "extract_with_tesseract env_tie cond0 =
     Inr \<lparr>extracted_text = ''0.123 kg'', extracted_weight = Some (to_double (123 / 1000)),
          confidence_score = 0, ocr_engine = ''tesseract''\<rparr>"
  by (simp add: tess_eval env_defs)

lemmas vision_eval = extract_with_google_vision_def google_vision_body_def raw0_def
  py_strip_def is_space_def parse_peso_32 empty_result_def

lemma vision_answers:
  "extract_with_google_vision env0 raw0 =
     Inr \<lparr>extracted_text = ''PESO: 3.2 kg'', extracted_weight = Some (to_double (16 / 5)),
          confidence_score = 17 / 20, ocr_engine = ''google_vision''\<rparr>"
  "extract_with_google_vision env_hi raw0 =
     Inr \<lparr>extracted_text = ''PESO: 3.2 kg'', extracted_weight = Some (to_double (16 / 5)),
          confidence_score = 17 / 20, ocr_engine = ''google_vision''\<rparr>"
  "extract_with_google_vision env_no_context raw0 =
     Inr \<lparr>extracted_text = ''PESO: 3.2 kg'', extracted_weight = Some (to_double (16 / 5)),
          confidence_score = 17 / 20, ocr_engine = ''google_vision''\<rparr>"
  "extract_with_google_vision env_rollback_once raw0 =
     Inr \<lparr>extracted_text = ''PESO: 3.2 kg'', extracted_weight = Some (to_double (16 / 5)),
          confidence_score = 17 / 20, ocr_engine = ''google_vision''\<rparr>"
  by (simp_all add: vision_eval env_defs)

lemma vision_env_tie:
  "extract_with_google_vision env_tie raw0 =
     Inr \<lparr>extracted_text = [], extracted_weight = None, confidence_score = 0,
          ocr_engine = ''google_vision''\<rparr>"
  by (simp add: vision_eval env_defs)

lemma elapsed_envs:
  "elapsed_ms env0 = 1234" "elapsed_ms env_hi = 1234" "elapsed_ms env_tie = 1234"
  "elapsed_ms env_no_context = 1234" "elapsed_ms env_rollback_once = 1234"
  by (simp_all add: elapsed_ms_def env_defs py_int_def)

lemma validate_values:
  "validate_weight_value (to_double (16 / 5)) = Some (to_double (16 / 5))"
  "validate_weight_value (to_double (123 / 1000)) = Some (to_double (12 / 100))"
  "validate_weight_value (to_double (256789 / 100000)) = Some (to_double (257 / 100))"
  "validate_weight_value (to_double (2675 / 1000)) = Some (to_double (267 / 100))"
  "validate_weight_value (to_double (49995 / 1000)) = Some (to_double (4999 / 100))"
  "validate_weight_value (1 / 8) = Some (to_double (12 / 100))"
  "validate_weight_value (3 / 8) = Some (to_double (38 / 100))"
  by (simp_all add: validate_weight_value_def py_round2_def double_eval)

lemma double_values:
  "to_double (123 / 1000) = 553942754166571 / 4503599627370496"
  "to_double (12 / 100) = 1080863910568919 / 9007199254740992"
  by (simp_all add: double_eval)

lemma log_returns_env0:
  "fst (log_if_registered env0 w rid tx c ms eng) = Inr ()"
  "fst (log_if_registered env_hi w rid tx c ms eng) = Inr ()"
  "fst (log_if_registered env_tie w rid tx c ms eng) = Inr ()"
  by (rule log_returns_when_rollback_returns, simp add: env_defs)+

lemma engines_env0:
  "run_engines env0 world0 raw0 =
     (Inr \<lparr>extracted_text = ''PESO: 3.2 kg'', extracted_weight = Some (to_double (16 / 5)),
           confidence_score = 17 / 20, ocr_engine = ''google_vision''\<rparr>,
      \<lparr>db = \<lparr>pending = [], stored = []\<rparr>, calls = [PrimaryCall cond0, SecondaryCall raw0]\<rparr>)"
proof -
  have p: "preprocess_image_for_ocr (lib env0) raw0 = Inr cond0"
    by (simp add: lib_of_envs preprocess_lib0)
  show ?thesis
    by (simp add: run_engines_eq[OF p tesseract_low(1) vision_answers(1)] record_call_def
        world0_def)
qed

lemma process_env0:
  "process_image env0 world0 url0 None =
     (Inr \<lparr>success = True, out_text = Some ''PESO: 3.2 kg'',
           out_weight = Some (to_double (16 / 5)),
           out_confidence = 17 / 20, out_engine = ''google_vision'',
           processing_time_ms = 1234, error = None\<rparr>,
      \<lparr>db = \<lparr>pending = [], stored = []\<rparr>, calls = [PrimaryCall cond0, SecondaryCall raw0]\<rparr>)"
  by (simp add: process_image_success[OF download_env0(1) engines_env0 log_returns_env0(1)]
      success_outcome_def validate_values elapsed_envs log_if_registered_def)

section \<open>Orchestrator: which image the fallback engine receives\<close>

text \<open>
  C1 as the spec states it: on every run that reaches the fallback branch the secondary
  adapter is invoked on the conditioned bitmap. In \<open>env0\<close> conditioning turns the acquired
  image \<open>raw0\<close> into \<open>cond0\<close>, a different bitmap; the primary adapter is called on
  \<open>cond0\<close> and the secondary adapter on \<open>raw0\<close>, not on \<open>cond0\<close>.
\<close>

theorem secondary_on_conditioned_bitmap_counterexample_C1:
  "download_image env0 url0 = Inr raw0 \<and>
   preprocess_image_for_ocr (lib env0) raw0 = Inr cond0 \<and>
   cond0 \<noteq> raw0 \<and>
   primary_calls (calls (snd (process_image env0 world0 url0 None))) = [cond0] \<and>
   secondary_calls (calls (snd (process_image env0 world0 url0 None))) = [raw0] \<and>
   secondary_calls (calls (snd (process_image env0 world0 url0 None))) \<noteq> [cond0]"
proof -
  have neq: "cond0 \<noteq> raw0" by (simp add: cond0_def raw0_def)
  show ?thesis
    using neq
    by (simp add: download_env0 lib_of_envs preprocess_lib0 process_env0 primary_calls_def
        secondary_calls_def)
qed

text \<open>
  C1 as amended: on every run that reaches the fallback branch (the image was acquired and
  the primary confidence is below 0.7) the primary adapter is invoked on the conditioned
  bitmap and then the secondary adapter is invoked on the acquired image itself, the value
  \<open>_download_image\<close> returned.
\<close>

theorem secondary_on_acquired_image_C1:
  assumes "download_image E url = Inr img"
    and "preprocess_image_for_ocr (lib E) img = Inr p"
    and "extract_with_tesseract E p = Inr t"
    and "confidence_score t < 7 / 10"
  shows "calls (snd (process_image E w url rid)) = calls w @ [PrimaryCall p, SecondaryCall img]"
proof -
  obtain v where v: "extract_with_google_vision E img = Inr v" using vision_ok by blast
  have r: "run_engines E w img =
      (Inr (if confidence_score t < confidence_score v then v else t),
       record_call (SecondaryCall img) (record_call (PrimaryCall p) w))"
    using assms(4) by (simp add: run_engines_eq[OF assms(2) assms(3) v])
  show ?thesis
    by (simp add: process_image_calls[OF assms(1) r] record_call_def)
qed

theorem secondary_on_acquired_image_C1_witness:
  "download_image env0 url0 = Inr raw0 \<and>
   preprocess_image_for_ocr (lib env0) raw0 = Inr cond0 \<and>
   confidence_score \<lparr>extracted_text = ''0.123 kg'',
          extracted_weight = Some (to_double (123 / 1000)),
          confidence_score = 2 / 5, ocr_engine = ''tesseract''\<rparr> < 7 / 10 \<and>
   calls (snd (process_image env0 world0 url0 (Some ''reg-1''))) =
     [PrimaryCall cond0, SecondaryCall raw0]"
proof -
  have p: "preprocess_image_for_ocr (lib env0) raw0 = Inr cond0"
    by (simp add: lib_of_envs preprocess_lib0)
  have c: "confidence_score \<lparr>extracted_text = ''0.123 kg'',
          extracted_weight = Some (to_double (123 / 1000)),
          confidence_score = 2 / 5, ocr_engine = ''tesseract''\<rparr> < 7 / 10" by simp
  show ?thesis
    using secondary_on_acquired_image_C1[OF download_env0(1) p tesseract_low(1) c,
        of world0 "Some ''reg-1''"]
    by (simp add: download_env0 p world0_def)
qed

section \<open>Orchestrator: the fallback threshold\<close>

text \<open>
  C3. For every image that was acquired (conditioning and the primary adapter always
  return), the run adds exactly one call of the secondary adapter when the primary
  confidence is below 0.7, and none when it is 0.7 or more.
\<close>

theorem secondary_invoked_iff_low_confidence_C3:
  assumes "download_image E url = Inr img"
  shows "\<exists>p t. preprocess_image_for_ocr (lib E) img = Inr p \<and>
           extract_with_tesseract E p = Inr t \<and>
           length (secondary_calls (calls (snd (process_image E w url rid)))) =
             length (secondary_calls (calls w)) + (if confidence_score t < 7 / 10 then 1 else 0)"
proof -
  obtain p t v where p: "preprocess_image_for_ocr (lib E) img = Inr p"
    and t: "extract_with_tesseract E p = Inr t"
    and v: "extract_with_google_vision E img = Inr v"
    using run_engines_ok[of E img w] by blast
  have n: "length (secondary_calls (calls (snd (process_image E w url rid)))) =
             length (secondary_calls (calls w)) + (if confidence_score t < 7 / 10 then 1 else 0)"
  proof (cases "7 / 10 \<le> confidence_score t")
    case True
    then have r: "run_engines E w img = (Inr t, record_call (PrimaryCall p) w)"
      by (simp add: run_engines_eq[OF p t v])
    show ?thesis
      using True
      by (simp add: process_image_calls[OF assms r] record_call_def secondary_calls_def)
  next
    case False
    then have r: "run_engines E w img =
        (Inr (if confidence_score t < confidence_score v then v else t),
         record_call (SecondaryCall img) (record_call (PrimaryCall p) w))"
      by (simp add: run_engines_eq[OF p t v])
    show ?thesis
      using False
      by (simp add: process_image_calls[OF assms r] record_call_def secondary_calls_def)
  qed
  show ?thesis using p t n by blast
qed

theorem secondary_invoked_iff_low_confidence_C3_witness:
  "download_image env0 url0 = Inr raw0 \<and>
   length (secondary_calls (calls (snd (process_image env0 world0 url0 None)))) = 1 \<and>
   download_image env_hi url0 = Inr raw0 \<and>
   length (secondary_calls (calls (snd (process_image env_hi world0 url0 None)))) = 0"
proof -
  have a: "length (secondary_calls (calls (snd (process_image env0 world0 url0 None)))) = 1"
    using secondary_invoked_iff_low_confidence_C3[OF download_env0(1), of world0 None]
    by (auto simp: lib_of_envs preprocess_lib0 tesseract_low world0_def secondary_calls_def)
  have b: "length (secondary_calls (calls (snd (process_image env_hi world0 url0 None)))) = 0"
    using secondary_invoked_iff_low_confidence_C3[OF download_env0(2), of world0 None]
    by (auto simp: lib_of_envs preprocess_lib0 tesseract_env_hi world0_def secondary_calls_def)
  show ?thesis using a b by (simp add: download_env0)
qed

section \<open>Orchestrator: arbitration\<close>

text \<open>
  C4. Whenever both engines have run (the image was acquired and the primary confidence
  is below 0.7), the result the orchestrator selects is the secondary result when its
  confidence is strictly greater than the primary's, and the primary result otherwise; in
  particular equal confidences select the primary result. Every successful outcome of the
  run has the engine, confidence, text and weight (as re-validated) of the selected
  result, and the run is successful whenever the session's rollback does not raise.
\<close>

theorem arbitration_prefers_strictly_greater_C4:
  assumes "download_image E url = Inr img"
    and "preprocess_image_for_ocr (lib E) img = Inr p"
    and "extract_with_tesseract E p = Inr t"
    and "extract_with_google_vision E img = Inr v"
    and "confidence_score t < 7 / 10"
  shows "fst (run_engines E w img) =
           Inr (if confidence_score t < confidence_score v then v else t) \<and>
         (\<forall>out w'. process_image E w url rid = (Inr out, w') \<and> success out \<longrightarrow>
           (let sel = (if confidence_score t < confidence_score v then v else t) in
              out_engine out = ocr_engine sel \<and>
              out_confidence out = confidence_score sel \<and>
              out_text out = Some (extracted_text sel) \<and>
              out_weight out = (case extracted_weight sel of
                                  None \<Rightarrow> None | Some x \<Rightarrow> validate_weight_value x)) \<and>
           (confidence_score v = confidence_score t \<longrightarrow>
              out_engine out = ocr_engine t \<and> out_confidence out = confidence_score t \<and>
              out_text out = Some (extracted_text t))) \<and>
         ((\<forall>s. db_rollback_error E s = None) \<longrightarrow>
            (\<exists>out w'. process_image E w url rid = (Inr out, w') \<and> success out))"
proof -
  have r: "run_engines E w img =
      (Inr (if confidence_score t < confidence_score v then v else t),
       record_call (SecondaryCall img) (record_call (PrimaryCall p) w))"
    using assms(5) by (simp add: run_engines_eq[OF assms(2) assms(3) assms(4)])
  have a: "fst (run_engines E w img) =
           Inr (if confidence_score t < confidence_score v then v else t)"
    by (simp add: r)
  have b: "(let sel = (if confidence_score t < confidence_score v then v else t) in
              out_engine out = ocr_engine sel \<and>
              out_confidence out = confidence_score sel \<and>
              out_text out = Some (extracted_text sel) \<and>
              out_weight out = (case extracted_weight sel of
                                  None \<Rightarrow> None | Some x \<Rightarrow> validate_weight_value x)) \<and>
           (confidence_score v = confidence_score t \<longrightarrow>
              out_engine out = ocr_engine t \<and> out_confidence out = confidence_score t \<and>
              out_text out = Some (extracted_text t))"
    if h: "process_image E w url rid = (Inr out, w')" "success out" for out w'
  proof -
    from successful_outcome[OF h] assms(1) r
    have "out = success_outcome (if confidence_score t < confidence_score v then v else t)
                  (elapsed_ms E)"
      by auto
    then show ?thesis by (simp add: success_outcome_def Let_def)
  qed
  have c: "(\<forall>s. db_rollback_error E s = None) \<longrightarrow>
            (\<exists>out w'. process_image E w url rid = (Inr out, w') \<and> success out)"
    using succeeds_when_rollback_returns[OF assms(1)] by blast
  show ?thesis using a b c by blast
qed

theorem arbitration_prefers_strictly_greater_C4_witness:
  "download_image env0 url0 = Inr raw0 \<and>
   preprocess_image_for_ocr (lib env0) raw0 = Inr cond0 \<and>
   (\<exists>out w'. process_image env0 world0 url0 None = (Inr out, w') \<and> success out \<and>
      out_engine out = ''google_vision'' \<and> out_confidence out = 17 / 20 \<and>
      out_text out = Some ''PESO: 3.2 kg'') \<and>
   download_image env_tie url0 = Inr raw0 \<and>
   preprocess_image_for_ocr (lib env_tie) raw0 = Inr cond0 \<and>
   (\<exists>out w'. process_image env_tie world0 url0 None = (Inr out, w') \<and> success out \<and>
      out_engine out = ''tesseract'' \<and> out_confidence out = 0 \<and>
      out_text out = Some ''0.123 kg'')"
proof -
  have p0: "preprocess_image_for_ocr (lib env0) raw0 = Inr cond0"
    and p1: "preprocess_image_for_ocr (lib env_tie) raw0 = Inr cond0"
    by (simp_all add: lib_of_envs preprocess_lib0)
  have c0: "confidence_score \<lparr>extracted_text = ''0.123 kg'',
          extracted_weight = Some (to_double (123 / 1000)),
          confidence_score = 2 / 5, ocr_engine = ''tesseract''\<rparr> < 7 / 10" by simp
  have c1: "confidence_score \<lparr>extracted_text = ''0.123 kg'',
          extracted_weight = Some (to_double (123 / 1000)),
          confidence_score = 0, ocr_engine = ''tesseract''\<rparr> < 7 / 10" by simp
  have r0: "\<forall>s. db_rollback_error env0 s = None" and r1: "\<forall>s. db_rollback_error env_tie s = None"
    by (simp_all add: env_defs)
  have a: "\<exists>out w'. process_image env0 world0 url0 None = (Inr out, w') \<and> success out \<and>
      out_engine out = ''google_vision'' \<and> out_confidence out = 17 / 20 \<and>
      out_text out = Some ''PESO: 3.2 kg''"
    using arbitration_prefers_strictly_greater_C4[OF download_env0(1) p0 tesseract_low(1)
        vision_answers(1) c0, of world0 None] r0
    by (auto simp: Let_def)
  have b: "\<exists>out w'. process_image env_tie world0 url0 None = (Inr out, w') \<and> success out \<and>
      out_engine out = ''tesseract'' \<and> out_confidence out = 0 \<and>
      out_text out = Some ''0.123 kg''"
    using arbitration_prefers_strictly_greater_C4[OF download_env0(3) p1 tesseract_env_tie
        vision_env_tie c1, of world0 None] r1
    by (auto simp: Let_def)
  show ?thesis using a b by (simp add: download_env0 p0 p1)
qed

section \<open>Weight parser and outcome: the range gate\<close>

text \<open>
  C5. A value the weight parser returns lies in [0.1, 50.0]; the parser returns the first
  candidate that passes the range gate, so candidates outside the range are skipped and the
  search goes on, and it returns nothing exactly when no candidate passes; and the weight
  of every outcome \<open>process_image\<close> returns, when present, lies in [0.1, 50.0].
\<close>

theorem weight_within_plausible_range_C5:
  "(\<forall>x. extract_weight_from_text tx = Some x \<longrightarrow> 1 / 10 \<le> x \<and> x \<le> 50) \<and>
   extract_weight_from_text tx = find in_weight_range (weight_candidates tx) \<and>
   (extract_weight_from_text tx = None \<longleftrightarrow>
      (\<forall>c\<in>set (weight_candidates tx). \<not> in_weight_range c)) \<and>
   (\<forall>out w' x. process_image E w url rid = (Inr out, w') \<and> out_weight out = Some x
      \<longrightarrow> 1 / 10 \<le> x \<and> x \<le> 50)"
proof -
  have a: "\<forall>x. extract_weight_from_text tx = Some x \<longrightarrow> 1 / 10 \<le> x \<and> x \<le> 50"
    using extract_weight_in_range[of tx] in_weight_range_bounds by blast
  have b: "extract_weight_from_text tx = find in_weight_range (weight_candidates tx)"
    by (rule extract_weight_find)
  have c: "extract_weight_from_text tx = None \<longleftrightarrow>
      (\<forall>c\<in>set (weight_candidates tx). \<not> in_weight_range c)"
    by (simp add: extract_weight_find find_None_iff_none)
  have d: "1 / 10 \<le> x \<and> x \<le> 50"
    if h: "process_image E w url rid = (Inr out, w')" "out_weight out = Some x" for out w' x
  proof -
    from process_image_outcome[OF h(1)] show ?thesis
    proof
      assume "\<exists>e. out = error_outcome e (elapsed_ms E)"
      with h(2) show ?thesis by (auto simp: error_outcome_def)
    next
      assume "\<exists>img result w3. download_image E url = Inr img \<and>
                run_engines E w img = (Inr result, w3) \<and>
                out = success_outcome result (elapsed_ms E)"
      then obtain result where "out = success_outcome result (elapsed_ms E)" by blast
      with h(2) have "(case extracted_weight result of
                        None \<Rightarrow> None | Some y \<Rightarrow> validate_weight_value y) = Some x"
        by (simp add: success_outcome_def)
      then obtain y where "validate_weight_value y = Some x" by (auto split: option.splits)
      from validate_in_range[OF this] show ?thesis by (rule in_weight_range_bounds)
    qed
  qed
  show ?thesis using a b c d by blast
qed

theorem weight_within_plausible_range_C5_witness:
  "extract_weight_from_text ''100 kg 2,5'' = Some (5 / 2) \<and>
   weight_candidates ''100 kg 2,5'' = [100, 100, 100, 5 / 2] \<and>
   \<not> in_weight_range 100 \<and> in_weight_range (5 / 2) \<and>
   extract_weight_from_text ''100 kg'' = None \<and>
   weight_candidates ''100 kg'' = [100, 100, 100] \<and>
   process_image env0 world0 url0 None =
     (Inr \<lparr>success = True, out_text = Some ''PESO: 3.2 kg'',
           out_weight = Some (to_double (16 / 5)),
           out_confidence = 17 / 20, out_engine = ''google_vision'',
           processing_time_ms = 1234, error = None\<rparr>,
      \<lparr>db = \<lparr>pending = [], stored = []\<rparr>, calls = [PrimaryCall cond0, SecondaryCall raw0]\<rparr>) \<and>
   (1 / 10 \<le> to_double (16 / 5) \<and> to_double (16 / 5) \<le> 50)"
proof -
  have c1: "weight_candidates ''100 kg 2,5'' = [100, 100, 100, 5 / 2]"
    by (simp add: weight_candidates_def pattern_candidate_def number_candidates_def
        rx_eval parse_eval double_eval)
  have c2: "weight_candidates ''100 kg'' = [100, 100, 100]"
    by (simp add: weight_candidates_def pattern_candidate_def number_candidates_def
        rx_eval parse_eval double_eval)
  have r: "\<not> in_weight_range 100" "in_weight_range (5 / 2)"
    by (simp_all add: in_weight_range_def double_tenth)
  show ?thesis
    using weight_within_plausible_range_C5[of "''100 kg 2,5''" env0 world0 url0 None]
      weight_within_plausible_range_C5[of "''100 kg''" env0 world0 url0 None]
    by (simp add: c1 c2 r process_env0)
qed

section \<open>Orchestrator: the final re-validation rounds\<close>

text \<open>
  C10. On every successful run, the weight of the outcome is the weight of the selected
  extraction result rounded to two decimal places (absent when that is absent): it is the
  double that reads \<open>k / 100\<close> for the integer \<open>k\<close> nearest to a hundred times the
  weight, a tie going to the even \<open>k\<close>. The weight of the selected result is what the
  parser returned for the recognised text, and the parser itself does not round: on
  "0.123 kg" it returns the double 0.123, which the re-validation rounds to 0.12. The
  rounding is Python's: 2.56789 gives 2.57, the doubles written 2.675 and 49.995 lie below
  the tie and give 2.67 and 49.99, and the exact ties 0.125 and 0.375 give 0.12 and 0.38.
  A run whose image was acquired is successful whenever the session's rollback does not
  raise.
\<close>

theorem outcome_weight_rounded_to_two_places_C10:
  assumes "download_image E url = Inr img"
  shows "(\<forall>out w'. process_image E w url rid = (Inr out, w') \<and> success out \<longrightarrow>
           (\<exists>result w3. run_engines E w img = (Inr result, w3) \<and>
              out_weight out = map_option py_round2 (extracted_weight result) \<and>
              (extracted_weight result = None \<or>
               (\<exists>tx. extracted_weight result = extract_weight_from_text tx)) \<and>
              (\<forall>x r. extracted_weight result = Some x \<and> out_weight out = Some r \<longrightarrow>
                 (\<exists>k. r = to_double (of_int k / 100) \<and> \<bar>of_int k - 100 * x\<bar> \<le> 1 / 2 \<and>
                      (\<bar>of_int k - 100 * x\<bar> = 1 / 2 \<longrightarrow> even k))))) \<and>
         ((\<forall>s. db_rollback_error E s = None) \<longrightarrow>
            (\<exists>out w'. process_image E w url rid = (Inr out, w') \<and> success out)) \<and>
         extract_weight_from_text ''0.123 kg'' = Some (to_double (123 / 1000)) \<and>
         to_double (123 / 1000) = 553942754166571 / 4503599627370496 \<and>
         to_double (12 / 100) = 1080863910568919 / 9007199254740992 \<and>
         validate_weight_value (to_double (123 / 1000)) = Some (to_double (12 / 100)) \<and>
         validate_weight_value (to_double (256789 / 100000)) = Some (to_double (257 / 100)) \<and>
         validate_weight_value (to_double (2675 / 1000)) = Some (to_double (267 / 100)) \<and>
         validate_weight_value (to_double (49995 / 1000)) = Some (to_double (4999 / 100)) \<and>
         validate_weight_value (1 / 8) = Some (to_double (12 / 100)) \<and>
         validate_weight_value (3 / 8) = Some (to_double (38 / 100))"
proof -
  have a: "\<exists>result w3. run_engines E w img = (Inr result, w3) \<and>
              out_weight out = map_option py_round2 (extracted_weight result) \<and>
              (extracted_weight result = None \<or>
               (\<exists>tx. extracted_weight result = extract_weight_from_text tx)) \<and>
              (\<forall>x r. extracted_weight result = Some x \<and> out_weight out = Some r \<longrightarrow>
                 (\<exists>k. r = to_double (of_int k / 100) \<and> \<bar>of_int k - 100 * x\<bar> \<le> 1 / 2 \<and>
                      (\<bar>of_int k - 100 * x\<bar> = 1 / 2 \<longrightarrow> even k)))"
    if h: "process_image E w url rid = (Inr out, w')" "success out" for out w'
  proof -
    obtain result w3 where r: "run_engines E w img = (Inr result, w3)"
      and pw: "extracted_weight result = None \<or>
        (\<exists>tx. extracted_weight result = extract_weight_from_text tx)"
      using run_engines_result[of E w img] by blast
    from successful_outcome[OF h] assms r
    have o: "out = success_outcome result (elapsed_ms E)" by auto
    have v: "(case extracted_weight result of None \<Rightarrow> None | Some x \<Rightarrow> validate_weight_value x)
              = map_option py_round2 (extracted_weight result)"
    proof (cases "extracted_weight result")
      case None
      then show ?thesis by simp
    next
      case (Some x)
      with pw obtain tx where "extract_weight_from_text tx = Some x" by auto
      from extract_weight_in_range[OF this] Some show ?thesis
        by (simp add: validate_of_in_range)
    qed
    have ow: "out_weight out = map_option py_round2 (extracted_weight result)"
      by (simp add: o success_outcome_def v)
    have k: "\<exists>k. r' = to_double (of_int k / 100) \<and> \<bar>of_int k - 100 * x\<bar> \<le> 1 / 2 \<and>
                      (\<bar>of_int k - 100 * x\<bar> = 1 / 2 \<longrightarrow> even k)"
      if "extracted_weight result = Some x" "out_weight out = Some r'" for x r'
      using that ow py_round2_hundredth[of x] by simp
    show ?thesis using r ow pw k by blast
  qed
  have b: "(\<forall>s. db_rollback_error E s = None) \<longrightarrow>
            (\<exists>out w'. process_image E w url rid = (Inr out, w') \<and> success out)"
    using succeeds_when_rollback_returns[OF assms] by blast
  have p1: "\<forall>out w'. process_image E w url rid = (Inr out, w') \<and> success out \<longrightarrow>
           (\<exists>result w3. run_engines E w img = (Inr result, w3) \<and>
              out_weight out = map_option py_round2 (extracted_weight result) \<and>
              (extracted_weight result = None \<or>
               (\<exists>tx. extracted_weight result = extract_weight_from_text tx)) \<and>
              (\<forall>x r. extracted_weight result = Some x \<and> out_weight out = Some r \<longrightarrow>
                 (\<exists>k. r = to_double (of_int k / 100) \<and> \<bar>of_int k - 100 * x\<bar> \<le> 1 / 2 \<and>
                      (\<bar>of_int k - 100 * x\<bar> = 1 / 2 \<longrightarrow> even k))))"
    using a by blast
  have p3: "extract_weight_from_text ''0.123 kg'' = Some (to_double (123 / 1000)) \<and>
         to_double (123 / 1000) = 553942754166571 / 4503599627370496 \<and>
         to_double (12 / 100) = 1080863910568919 / 9007199254740992 \<and>
         validate_weight_value (to_double (123 / 1000)) = Some (to_double (12 / 100)) \<and>
         validate_weight_value (to_double (256789 / 100000)) = Some (to_double (257 / 100)) \<and>
         validate_weight_value (to_double (2675 / 1000)) = Some (to_double (267 / 100)) \<and>
         validate_weight_value (to_double (49995 / 1000)) = Some (to_double (4999 / 100)) \<and>
         validate_weight_value (1 / 8) = Some (to_double (12 / 100)) \<and>
         validate_weight_value (3 / 8) = Some (to_double (38 / 100))"
    by (intro conjI parse_label_0123 double_values validate_values)
  show ?thesis by (rule conjI[OF p1 conjI[OF b p3]])
qed

theorem outcome_weight_rounded_to_two_places_C10_witness:
  "download_image env_hi url0 = Inr raw0 \<and>
   extract_with_tesseract env_hi cond0 =
     Inr \<lparr>extracted_text = ''0.123 kg'', extracted_weight = Some (to_double (123 / 1000)),
          confidence_score = 17 / 20, ocr_engine = ''tesseract''\<rparr> \<and>
   (\<exists>out w'. process_image env_hi world0 url0 None = (Inr out, w') \<and> success out \<and>
      out_engine out = ''tesseract'' \<and> out_weight out = Some (to_double (12 / 100)))"
proof -
  have p: "preprocess_image_for_ocr (lib env_hi) raw0 = Inr cond0"
    by (simp add: lib_of_envs preprocess_lib0)
  have r: "run_engines env_hi world0 raw0 =
      (Inr \<lparr>extracted_text = ''0.123 kg'', extracted_weight = Some (to_double (123 / 1000)),
            confidence_score = 17 / 20, ocr_engine = ''tesseract''\<rparr>,
       record_call (PrimaryCall cond0) world0)"
    by (simp add: run_engines_eq[OF p tesseract_env_hi vision_answers(2)])
  have rb: "\<forall>s. db_rollback_error env_hi s = None" by (simp add: env_defs)
  have e: "\<exists>out w'. process_image env_hi world0 url0 None = (Inr out, w') \<and> success out \<and>
      out_engine out = ''tesseract'' \<and> out_weight out = Some (to_double (12 / 100))"
    using outcome_weight_rounded_to_two_places_C10[OF download_env0(2), of world0 None] rb
    by (auto simp: r process_image_success[OF download_env0(2) r log_returns_env0(2)]
        success_outcome_def validate_values)
  show ?thesis using e by (simp add: download_env0 tesseract_env_hi)
qed

section \<open>Log sink and failure path: the rollback is not guarded\<close>

lemma engines_low_confidence:
  "run_engines env_no_context world0 raw0 =
     (Inr \<lparr>extracted_text = ''PESO: 3.2 kg'', extracted_weight = Some (to_double (16 / 5)),
           confidence_score = 17 / 20, ocr_engine = ''google_vision''\<rparr>,
      \<lparr>db = \<lparr>pending = [], stored = []\<rparr>, calls = [PrimaryCall cond0, SecondaryCall raw0]\<rparr>)"
  "run_engines env_rollback_once world0 raw0 =
     (Inr \<lparr>extracted_text = ''PESO: 3.2 kg'', extracted_weight = Some (to_double (16 / 5)),
           confidence_score = 17 / 20, ocr_engine = ''google_vision''\<rparr>,
      \<lparr>db = \<lparr>pending = [], stored = []\<rparr>, calls = [PrimaryCall cond0, SecondaryCall raw0]\<rparr>)"
proof -
  have p: "preprocess_image_for_ocr (lib env_no_context) raw0 = Inr cond0"
    "preprocess_image_for_ocr (lib env_rollback_once) raw0 = Inr cond0"
    by (simp_all add: lib_of_envs preprocess_lib0)
  show "run_engines env_no_context world0 raw0 =
     (Inr \<lparr>extracted_text = ''PESO: 3.2 kg'', extracted_weight = Some (to_double (16 / 5)),
           confidence_score = 17 / 20, ocr_engine = ''google_vision''\<rparr>,
      \<lparr>db = \<lparr>pending = [], stored = []\<rparr>, calls = [PrimaryCall cond0, SecondaryCall raw0]\<rparr>)"
    by (simp add: run_engines_eq[OF p(1) tesseract_low(2) vision_answers(3)] record_call_def
        world0_def)
  show "run_engines env_rollback_once world0 raw0 =
     (Inr \<lparr>extracted_text = ''PESO: 3.2 kg'', extracted_weight = Some (to_double (16 / 5)),
           confidence_score = 17 / 20, ocr_engine = ''google_vision''\<rparr>,
      \<lparr>db = \<lparr>pending = [], stored = []\<rparr>, calls = [PrimaryCall cond0, SecondaryCall raw0]\<rparr>)"
    by (simp add: run_engines_eq[OF p(2) tesseract_low(3) vision_answers(4)] record_call_def
        world0_def)
qed

lemmas log_eval = log_if_registered_def log_ocr_processing_def session_rollback_def Let_def

text \<open>
  C6. The claim: whenever acquisition raises, \<open>process_image\<close> returns the error outcome
  and does not propagate an exception. The handler of \<open>process_image\<close> calls
  \<open>_log_ocr_processing\<close> outside any \<open>try\<close>, and the handler of \<open>_log_ocr_processing\<close>
  calls \<open>db.session.rollback()\<close> unguarded. With a registration id, an image that cannot
  be loaded and a session on which \<open>add\<close> and \<open>rollback\<close> raise (no application context),
  the exception of the rollback leaves \<open>process_image\<close>; where the session works, the same
  call returns the error outcome.
\<close>

theorem acquisition_failure_propagates_C6:
  "download_image env_no_context url_missing =
     Inl (Exn ''Failed to load image from file:///tmp/x.png: No such file'') \<and>
   process_image env_no_context world0 url_missing (Some ''reg-1'') =
     (Inl (Exn ''Working outside of application context.''), world0) \<and>
   fst (process_image env0 world0 url_missing (Some ''reg-1'')) =
     Inr \<lparr>success = False, out_text = None, out_weight = None, out_confidence = 0,
          out_engine = ''error'', processing_time_ms = 1234,
          error = Some ''Failed to load image from file:///tmp/x.png: No such file''\<rparr>"
proof -
  have t1: "process_image_try env_no_context world0 url_missing (Some ''reg-1'') =
      (Inl (Exn ''Failed to load image from file:///tmp/x.png: No such file''), world0)"
    and t0: "process_image_try env0 world0 url_missing (Some ''reg-1'') =
      (Inl (Exn ''Failed to load image from file:///tmp/x.png: No such file''), world0)"
    by (simp_all add: process_image_try_def download_missing)
  have a: "process_image env_no_context world0 url_missing (Some ''reg-1'') =
     (Inl (Exn ''Working outside of application context.''), world0)"
    unfolding process_image_def t1
    by (simp add: log_eval error_outcome_def elapsed_ms_def py_int_def env_defs no_context_def
        world0_def)
  have b: "fst (process_image env0 world0 url_missing (Some ''reg-1'')) =
     Inr \<lparr>success = False, out_text = None, out_weight = None, out_confidence = 0,
          out_engine = ''error'', processing_time_ms = 1234,
          error = Some ''Failed to load image from file:///tmp/x.png: No such file''\<rparr>"
    unfolding process_image_def t0
    by (simp add: log_eval error_outcome_def elapsed_ms_def py_int_def env_defs)
  show ?thesis using a b by (simp add: download_missing)
qed

text \<open>
  C7. The claim: when the log write raises, every field of the outcome is what it would
  be had the write succeeded, and the exception is never propagated. On a run with a
  registration id whose image is acquired, the write succeeding gives the successful
  outcome of the secondary engine. When the commit raises and the unguarded rollback
  raises too, the exception reaches the handler of \<open>process_image\<close>: if its own log call
  gets through, the run returns the error outcome, \<open>success\<close> false, with the rollback's
  message; if the session raises again (no application context), the exception leaves
  \<open>process_image\<close>.
\<close>

theorem log_failure_changes_outcome_C7:
  "fst (process_image env0 world0 url0 (Some ''reg-1'')) =
     Inr \<lparr>success = True, out_text = Some ''PESO: 3.2 kg'',
          out_weight = Some (to_double (16 / 5)),
          out_confidence = 17 / 20, out_engine = ''google_vision'',
          processing_time_ms = 1234, error = None\<rparr> \<and>
   fst (process_image env_rollback_once world0 url0 (Some ''reg-1'')) =
     Inr \<lparr>success = False, out_text = None, out_weight = None, out_confidence = 0,
          out_engine = ''error'', processing_time_ms = 1234,
          error = Some ''Rollback failed''\<rparr> \<and>
   fst (process_image env_no_context world0 url0 (Some ''reg-1'')) =
     Inl (Exn ''Working outside of application context.'')"
proof -
  have a: "fst (process_image env0 world0 url0 (Some ''reg-1'')) =
     Inr \<lparr>success = True, out_text = Some ''PESO: 3.2 kg'',
          out_weight = Some (to_double (16 / 5)),
          out_confidence = 17 / 20, out_engine = ''google_vision'',
          processing_time_ms = 1234, error = None\<rparr>"
    by (simp add: process_image_success[OF download_env0(1) engines_env0 log_returns_env0(1)]
        success_outcome_def validate_values elapsed_envs)
  have b: "fst (process_image env_rollback_once world0 url0 (Some ''reg-1'')) =
     Inr \<lparr>success = False, out_text = None, out_weight = None, out_confidence = 0,
          out_engine = ''error'', processing_time_ms = 1234,
          error = Some ''Rollback failed''\<rparr>"
    unfolding process_image_def
      process_image_try_acquired[OF download_env0(5) engines_low_confidence(2)]
    by (simp add: log_eval error_outcome_def elapsed_ms_def py_int_def env_defs)
  have c: "fst (process_image env_no_context world0 url0 (Some ''reg-1'')) =
     Inl (Exn ''Working outside of application context.'')"
    unfolding process_image_def
      process_image_try_acquired[OF download_env0(4) engines_low_confidence(1)]
    by (simp add: log_eval error_outcome_def elapsed_ms_def py_int_def env_defs no_context_def)
  show ?thesis using a b c by simp
qed

section \<open>Image conditioner: no stage aborts the pipeline\<close>

text \<open>
  C8. For every image and every behaviour of the library calls, the conditioner returns
  an image, never an exception, and the image has the band layout of its input; each of
  the five stages returns an array of the shape of its input, and when the stage's own
  computation raises, the stage returns its input unchanged, so that the next stage runs
  on it.
\<close>

theorem conditioning_never_raises_C8:
  "(\<exists>out. preprocess_image_for_ocr L img = Inr out \<and> multiband out = multiband img) \<and>
   (\<exists>r. enhance_contrast L a = Inr r \<and> ndim r = ndim a \<and>
        (\<forall>e. enhance_contrast_body L a = Inl e \<longrightarrow> r = a)) \<and>
   (\<exists>r. adjust_brightness L a = Inr r \<and> ndim r = ndim a \<and>
        (\<forall>e. adjust_brightness_body L a = Inl e \<longrightarrow> r = a)) \<and>
   (\<exists>r. correct_rotation L a = Inr r \<and> ndim r = ndim a \<and>
        (\<forall>e. correct_rotation_body L a = Inl e \<longrightarrow> r = a)) \<and>
   (\<exists>r. reduce_noise L a = Inr r \<and> ndim r = ndim a \<and>
        (\<forall>e. reduce_noise_body L a = Inl e \<longrightarrow> r = a)) \<and>
   (\<exists>r. sharpen_image L a = Inr r \<and> ndim r = ndim a \<and>
        (\<forall>e. sharpen_image_body L a = Inl e \<longrightarrow> r = a))"
  using preprocess_ok[of L img] enhance_contrast_ok[of L a] adjust_brightness_ok[of L a]
    correct_rotation_ok[of L a] reduce_noise_ok[of L a] sharpen_image_ok[of L a]
  by simp

theorem conditioning_never_raises_C8_witness:
  "enhance_contrast_body lib_failing arr0 = Inl (Exn ''MemoryError'') \<and>
   enhance_contrast lib_failing arr0 = Inr arr0 \<and>
   adjust_brightness_body lib_failing arr0 = Inl (Exn ''MemoryError'') \<and>
   adjust_brightness lib_failing arr0 = Inr arr0 \<and>
   correct_rotation_body lib_failing arr0 = Inl (Exn ''MemoryError'') \<and>
   correct_rotation lib_failing arr0 = Inr arr0 \<and>
   reduce_noise_body lib_failing arr0 = Inl (Exn ''cv2.error'') \<and>
   reduce_noise lib_failing arr0 = Inr arr0 \<and>
   sharpen_image_body lib_failing arr0 = Inl (Exn ''cv2.error'') \<and>
   sharpen_image lib_failing arr0 = Inr arr0 \<and>
   np_array lib_failing gray0 = Inr arr0 \<and>
   preprocess_body lib_failing gray0 = Inr gray0 \<and>
   preprocess_image_for_ocr lib_failing gray0 = Inr gray0"
proof -
  have b: "enhance_contrast_body lib_failing arr0 = Inl (Exn ''MemoryError'')"
    "adjust_brightness_body lib_failing arr0 = Inl (Exn ''MemoryError'')"
    "correct_rotation_body lib_failing arr0 = Inl (Exn ''MemoryError'')"
    "reduce_noise_body lib_failing arr0 = Inl (Exn ''cv2.error'')"
    "sharpen_image_body lib_failing arr0 = Inl (Exn ''cv2.error'')"
    by (simp_all add: cond_eval lib_failing_def arr0_def)
  have n: "np_array lib_failing gray0 = Inr arr0"
    by (simp add: np_array_def lib_failing_def gray0_def arr0_def)
  have s: "enhance_contrast lib_failing arr0 = Inr arr0 \<and>
     adjust_brightness lib_failing arr0 = Inr arr0 \<and>
     correct_rotation lib_failing arr0 = Inr arr0 \<and>
     reduce_noise lib_failing arr0 = Inr arr0 \<and>
     sharpen_image lib_failing arr0 = Inr arr0"
    using conditioning_never_raises_C8[of lib_failing gray0 arr0]
    by (auto simp: b)
  have f: "image_fromarray lib_failing arr0 = Inr gray0"
    by (simp add: image_fromarray_def lib_failing_def gray0_def arr0_def)
  have pb: "preprocess_body lib_failing gray0 = Inr gray0"
    using s by (simp add: preprocess_body_def n f) (simp add: arr0_def)
  show ?thesis using s pb by (simp add: b n preprocess_image_for_ocr_def)
qed

end
